theory Spec2Isabelle
  imports Main "HOL-Library.AList"
begin

section \<open>JavaScript values the sources rely on\<close>

text \<open>
  A thrown JavaScript value. The sources read \<^verbatim>\<open>error instanceof Error ? error.message :
  'Unknown error'\<close> wherever they turn a caught value into text.
\<close>

datatype thrown = Error string | NonError

fun message_of :: "thrown \<Rightarrow> string" where
  "message_of (Error msg) = msg"
| "message_of NonError = ''Unknown error''"

type_synonym AuthenticationCreds = string

text \<open>
  The raw \<^verbatim>\<open>keys\<close> object of authState.ts: category name, then key id, then the key
  blob (\<^verbatim>\<open>null\<close> is \<open>None\<close>). JavaScript objects keep insertion order, hence
  association lists.
\<close>

type_synonym key_store = "(string \<times> (string \<times> string option) list) list"

text \<open>
  Built-ins and library functions that the sources call and that are not part of the
  repository: \<^verbatim>\<open>parseInt\<close> (\<open>None\<close> is NaN), \<^verbatim>\<open>String\<close> on a row id,
  \<^verbatim>\<open>JSON.stringify({creds, keys}, BufferJSON.replacer)\<close>,
  \<^verbatim>\<open>JSON.parse(text, BufferJSON.reviver)\<close> (\<open>None\<close> when it throws) and Baileys'
  \<^verbatim>\<open>initAuthCreds()\<close>. They are parameters of the model.
\<close>

record runtime =
  parseInt :: "string \<Rightarrow> int option"
  toString :: "int \<Rightarrow> string"
  stringify :: "AuthenticationCreds \<Rightarrow> key_store \<Rightarrow> string"
  parse :: "string \<Rightarrow> (AuthenticationCreds \<times> key_store) option"
  initAuthCreds :: AuthenticationCreds

section \<open>The durable store (database.ts)\<close>

text \<open>
  A row of the table \<^verbatim>\<open>"Whatsapps"\<close>, with the columns the session manager reads or
  writes. \<open>None\<close> is SQL NULL.
\<close>

record WhatsappConnection =
  row_name :: string
  row_session :: "string option"
  row_status :: "string option"
  row_qrcode :: "string option"
  row_companyId :: int

text \<open>
  The table and whether the server answers. Every method of DatabaseManager connects on
  demand and rethrows what the client throws, so a call on an unreachable store throws.
\<close>

record store =
  rows :: "(int \<times> WhatsappConnection) list"
  reachable :: bool

text \<open>\<^verbatim>\<open>UPDATE "Whatsapps" SET ... WHERE id = k\<close>: every row with that id, none if there is none.\<close>

definition update_where ::
  "int \<Rightarrow> (WhatsappConnection \<Rightarrow> WhatsappConnection) \<Rightarrow> (int \<times> WhatsappConnection) list
    \<Rightarrow> (int \<times> WhatsappConnection) list" where
  "update_where k f rs = map (\<lambda>(i, r). if i = k then (i, f r) else (i, r)) rs"

text \<open>
  The id parameter is a JavaScript number; NaN is no integer and the query is refused
  by the server, which the method rethrows.
\<close>

definition query_update ::
  "int option \<Rightarrow> (WhatsappConnection \<Rightarrow> WhatsappConnection) \<Rightarrow> store \<Rightarrow> thrown + store" where
  "query_update k f db =
     (if \<not> reachable db then Inl (Error ''store unreachable'')
      else case k of
        None \<Rightarrow> Inl (Error ''invalid input syntax for type integer'')
      | Some i \<Rightarrow> Inr (db\<lparr>rows := update_where i f (rows db)\<rparr>))"

definition updateWhatsappSession :: "int option \<Rightarrow> string \<Rightarrow> store \<Rightarrow> thrown + store" where
  "updateWhatsappSession k blob db = query_update k (\<lambda>r. r\<lparr>row_session := Some blob\<rparr>) db"

text \<open>
  \<^verbatim>\<open>updateWhatsappStatus(id, status, qrcode?)\<close>: the qrcode column is written only when
  the third argument is not \<^verbatim>\<open>undefined\<close> (the outer \<open>None\<close>); \<open>Some None\<close> is an
  explicit \<^verbatim>\<open>null\<close>.
\<close>

definition updateWhatsappStatus ::
  "int option \<Rightarrow> string \<Rightarrow> string option option \<Rightarrow> store \<Rightarrow> thrown + store" where
  "updateWhatsappStatus k st qrcode db =
     (case qrcode of
        Some q \<Rightarrow> query_update k (\<lambda>r. r\<lparr>row_status := Some st, row_qrcode := q\<rparr>) db
      | None \<Rightarrow> query_update k (\<lambda>r. r\<lparr>row_status := Some st\<rparr>) db)"

definition clearWhatsappQRCode :: "int option \<Rightarrow> store \<Rightarrow> thrown + store" where
  "clearWhatsappQRCode k db = query_update k (\<lambda>r. r\<lparr>row_qrcode := None\<rparr>) db"

text \<open>
  \<^verbatim>\<open>SELECT ... WHERE status != 'DISCONNECTED' ORDER BY id\<close>. A NULL status compares to
  NULL, so such a row is not selected either.
\<close>

definition selected :: "WhatsappConnection \<Rightarrow> bool" where
  "selected r = (case row_status r of None \<Rightarrow> False | Some s \<Rightarrow> s \<noteq> ''DISCONNECTED'')"

definition getAllWhatsappConnections :: "store \<Rightarrow> thrown + (int \<times> WhatsappConnection) list" where
  "getAllWhatsappConnections db =
     (if \<not> reachable db then Inl (Error ''store unreachable'')
      else Inr (sort_key fst (filter (\<lambda>(i, r). selected r) (rows db))))"

text \<open>The row a session id addresses, if \<^verbatim>\<open>parseInt\<close> gives a number and the row exists.\<close>

definition stored_row :: "runtime \<Rightarrow> string \<Rightarrow> store \<Rightarrow> WhatsappConnection option" where
  "stored_row rt sid db = (case parseInt rt sid of None \<Rightarrow> None | Some k \<Rightarrow> map_of (rows db) k)"

section \<open>Credential state and the coalesced save (authState.ts)\<close>

text \<open>The variables that the closures returned by \<^verbatim>\<open>getAuthState\<close> share.\<close>

record auth_closure =
  creds :: AuthenticationCreds
  keys :: key_store
  saveInProgress :: bool
  pendingSave :: bool

text \<open>
  Loading: a truthy \<^verbatim>\<open>initialSession\<close> (a non-empty string) is parsed; a parse that throws,
  and a missing session, give a fresh identity with no keys.
\<close>

definition getAuthState :: "runtime \<Rightarrow> string option \<Rightarrow> auth_closure" where
  "getAuthState rt initialSession =
     (let fresh = \<lparr>creds = initAuthCreds rt, keys = [], saveInProgress = False, pendingSave = False\<rparr>
      in case initialSession of
           None \<Rightarrow> fresh
         | Some text \<Rightarrow>
             if text = [] then fresh
             else (case parse rt text of
                     None \<Rightarrow> fresh
                   | Some (c, ks) \<Rightarrow> fresh\<lparr>creds := c, keys := ks\<rparr>))"

text \<open>
  A closure together with the store it writes to. \<open>in_flight\<close> holds the blobs handed to
  \<^verbatim>\<open>updateWhatsappSession\<close> whose promise has not settled yet, oldest first;
  \<open>writes_started\<close> counts the calls of \<^verbatim>\<open>updateWhatsappSession\<close> so far.
\<close>

record save_system =
  closure :: auth_closure
  db :: store
  in_flight :: "string list"
  writes_started :: nat

text \<open>
  \<^verbatim>\<open>saveState(updatedCreds)\<close> up to its first suspension: either it returns at once
  (a save is in progress) or it hands the serialised current state to the store and waits.
\<close>

definition saveState :: "runtime \<Rightarrow> AuthenticationCreds \<Rightarrow> save_system \<Rightarrow> save_system" where
  "saveState rt updatedCreds s =
     (let a = (closure s)\<lparr>creds := updatedCreds\<rparr>
      in if saveInProgress a then s\<lparr>closure := a\<lparr>pendingSave := True\<rparr>\<rparr>
         else s\<lparr>closure := a\<lparr>saveInProgress := True\<rparr>,
                in_flight := in_flight s @ [stringify rt (creds a) (keys a)],
                writes_started := Suc (writes_started s)\<rparr>)"

text \<open>
  The oldest write in flight settles and \<^verbatim>\<open>saveState\<close> resumes after its \<^verbatim>\<open>await\<close>.
  When the store call throws, the \<^verbatim>\<open>catch\<close> only clears \<open>saveInProgress\<close>.
  \<open>None\<close>: no write is in flight, nothing can settle.
\<close>

definition write_settles :: "runtime \<Rightarrow> string \<Rightarrow> save_system \<Rightarrow> save_system option" where
  "write_settles rt sessionId s =
     (case in_flight s of
        [] \<Rightarrow> None
      | blob # rest \<Rightarrow>
          (case updateWhatsappSession (parseInt rt sessionId) blob (db s) of
             Inl e \<Rightarrow>
               Some (s\<lparr>closure := (closure s)\<lparr>saveInProgress := False\<rparr>, in_flight := rest\<rparr>)
           | Inr db' \<Rightarrow>
               (let s1 = s\<lparr>closure := (closure s)\<lparr>saveInProgress := False\<rparr>,
                           db := db', in_flight := rest\<rparr>
                in if pendingSave (closure s1)
                   then Some (saveState rt (creds (closure s1))
                                (s1\<lparr>closure := (closure s1)\<lparr>pendingSave := False\<rparr>\<rparr>))
                   else Some s1)))"

text \<open>
  \<^verbatim>\<open>KEY_MAP\<close>, and \<^verbatim>\<open>keys.set(data)\<close>: every category of \<open>data\<close> is merged into the
  raw keys object with \<^verbatim>\<open>Object.assign\<close>, then \<^verbatim>\<open>saveState(creds)\<close> is called.
  A category outside the table is looked up as \<^verbatim>\<open>undefined\<close>, which as a property name
  is the text "undefined".
\<close>

definition KEY_MAP :: "(string \<times> string) list" where
  "KEY_MAP =
     [(''pre-key'', ''preKeys''), (''session'', ''sessions''), (''sender-key'', ''senderKeys''),
      (''app-state-sync-key'', ''appStateSyncKeys''),
      (''app-state-sync-version'', ''appStateVersions''),
      (''sender-key-memory'', ''senderKeyMemory''), (''lid-mapping'', ''lidMappings''),
      (''device-index'', ''deviceIndexes''), (''device-list'', ''deviceLists'')]"

definition key_of :: "string \<Rightarrow> string" where
  "key_of t = (case map_of KEY_MAP t of None \<Rightarrow> ''undefined'' | Some k \<Rightarrow> k)"

fun object_assign :: "('k \<times> 'v) list \<Rightarrow> ('k \<times> 'v) list \<Rightarrow> ('k \<times> 'v) list" where
  "object_assign target [] = target"
| "object_assign target ((k, v) # others) = object_assign (AList.update k v target) others"

fun merge_keys :: "key_store \<Rightarrow> key_store \<Rightarrow> key_store" where
  "merge_keys ks [] = ks"
| "merge_keys ks ((t, entries) # others) =
     (let k = key_of t;
          old = (case map_of ks k of None \<Rightarrow> [] | Some es \<Rightarrow> es)
      in merge_keys (AList.update k (object_assign old entries) ks) others)"

definition keys_set :: "runtime \<Rightarrow> key_store \<Rightarrow> save_system \<Rightarrow> save_system" where
  "keys_set rt data s =
     (let a = (closure s)\<lparr>keys := merge_keys (keys (closure s)) data\<rparr>
      in saveState rt (creds a) (s\<lparr>closure := a\<rparr>))"

text \<open>
  What can happen to one closure: a save request (\<^verbatim>\<open>creds.update\<close>), a key update, the
  write in flight settling, and the store becoming unreachable or reachable again.
\<close>

datatype save_event =
    Request AuthenticationCreds
  | KeysSet key_store
  | Settle
  | StoreDown
  | StoreUp

fun save_step :: "runtime \<Rightarrow> string \<Rightarrow> save_event \<Rightarrow> save_system \<Rightarrow> save_system option" where
  "save_step rt sid (Request c) s = Some (saveState rt c s)"
| "save_step rt sid (KeysSet data) s = Some (keys_set rt data s)"
| "save_step rt sid Settle s = write_settles rt sid s"
| "save_step rt sid StoreDown s = Some (s\<lparr>db := (db s)\<lparr>reachable := False\<rparr>\<rparr>)"
| "save_step rt sid StoreUp s = Some (s\<lparr>db := (db s)\<lparr>reachable := True\<rparr>\<rparr>)"

fun save_run :: "runtime \<Rightarrow> string \<Rightarrow> save_event list \<Rightarrow> save_system \<Rightarrow> save_system option" where
  "save_run rt sid [] s = Some s"
| "save_run rt sid (e # es) s =
     (case save_step rt sid e s of None \<Rightarrow> None | Some s' \<Rightarrow> save_run rt sid es s')"

text \<open>The system right after \<^verbatim>\<open>getAuthState\<close>: nothing in flight, nothing written.\<close>

definition save_init :: "runtime \<Rightarrow> string option \<Rightarrow> store \<Rightarrow> save_system" where
  "save_init rt initialSession d =
     \<lparr>closure = getAuthState rt initialSession, db = d, in_flight = [], writes_started = 0\<rparr>"

text \<open>\<^verbatim>\<open>deleteAuthState\<close>: the session column is overwritten with the empty string; a throw is logged.\<close>

definition deleteAuthState :: "runtime \<Rightarrow> string \<Rightarrow> store \<Rightarrow> store" where
  "deleteAuthState rt sessionId d =
     (case updateWhatsappSession (parseInt rt sessionId) [] d of Inl e \<Rightarrow> d | Inr d' \<Rightarrow> d')"

section \<open>The session manager (WhatsAppManager.ts)\<close>

subsection \<open>Data\<close>

datatype status = CONNECTING | CONNECTED | DISCONNECTED | QR_PENDING

record StartConnectionData =
  cd_id :: string
  cd_name :: "string option"
  cd_companyId :: "int option"
  cd_session :: "string option"

text \<open>
  A \<^verbatim>\<open>Session\<close>: the socket object that \<^verbatim>\<open>makeWASocket\<close> returns, with the fields the
  manager adds to it. \<open>s_user\<close> belongs to the transport. \<open>s_listening\<close> says that the
  listeners attached by \<^verbatim>\<open>createConnection\<close> are still on \<^verbatim>\<open>ev\<close>; \<open>s_ended\<close> and
  \<open>s_loggedOut\<close> that \<^verbatim>\<open>end\<close> and \<^verbatim>\<open>logout\<close> were called; \<open>s_sent\<close> lists the calls
  of the transport's \<^verbatim>\<open>sendMessage\<close> (jid and content). The last three fields are what
  the listeners close over: the promise that \<^verbatim>\<open>createConnection\<close> returned, its
  \<^verbatim>\<open>connectionData\<close> and the credential closure.
\<close>

record Session =
  s_id :: string
  s_name :: "string option"
  s_companyId :: "int option"
  s_status :: status
  s_qrCode :: "string option"
  s_user :: "string option"
  s_listening :: bool
  s_ended :: bool
  s_loggedOut :: bool
  s_sent :: "(string \<times> string) list"
  s_promise :: nat
  s_connectionData :: StartConnectionData
  s_auth :: auth_closure

datatype promise = Pending | Resolved nat | Rejected thrown

record ConnectionUpdateData =
  cu_whatsappId :: string
  cu_status :: status
  cu_qrCode :: "string option"
  cu_error :: "string option"

datatype emitted_event = connectionUpdate ConnectionUpdateData | qrGenerated string string

text \<open>
  The manager's fields and the objects they refer to. Session objects and promises live
  in \<open>handles\<close> and \<open>promises\<close> and are referred to by number, because the registry and
  the listeners share them. \<open>sessions\<close> is a JavaScript \<^verbatim>\<open>Map\<close>, whose keys are listed in
  insertion order. \<open>timers\<close> holds the armed one-shot timers with their delay in
  milliseconds and the \<^verbatim>\<open>connectionData\<close> their callback restarts; \<open>transportOpens\<close> lists
  the calls of \<^verbatim>\<open>makeWASocket\<close> by session id; \<open>emitted\<close> the events sent to the gateway.
\<close>

record manager =
  sessions :: "(string \<times> nat) list"
  connectionPromises :: "string \<rightharpoonup> nat"
  deletedSessions :: "string set"
  pendingReconnects :: "string \<rightharpoonup> nat"
  retryAttempts :: "string \<rightharpoonup> nat"
  sessionStates :: "string \<rightharpoonup> nat"
  handles :: "nat \<rightharpoonup> Session"
  promises :: "nat \<rightharpoonup> promise"
  promisesMade :: nat
  timers :: "nat \<rightharpoonup> (nat \<times> StartConnectionData)"
  timersMade :: nat
  transportOpens :: "string list"
  database :: store
  emitted :: "emitted_event list"

definition maxRetryAttempts :: nat where
  "maxRetryAttempts = 5"

definition new_manager :: "store \<Rightarrow> manager" where
  "new_manager d =
     \<lparr>sessions = [], connectionPromises = Map.empty, deletedSessions = {},
      pendingReconnects = Map.empty, retryAttempts = Map.empty, sessionStates = Map.empty,
      handles = Map.empty, promises = Map.empty, promisesMade = 0, timers = Map.empty,
      timersMade = 0, transportOpens = [], database = d, emitted = []\<rparr>"

subsection \<open>Small operations\<close>

text \<open>
  The session object registered under an id. An entry of the registry always refers to
  a socket that was made; a lookup that finds none counts as no session.
\<close>

definition session_of :: "manager \<Rightarrow> string \<Rightarrow> Session option" where
  "session_of m sid = (case map_of (sessions m) sid of None \<Rightarrow> None | Some h \<Rightarrow> handles m h)"

definition modify_handle :: "nat \<Rightarrow> (Session \<Rightarrow> Session) \<Rightarrow> manager \<Rightarrow> manager" where
  "modify_handle h f m = m\<lparr>handles := (handles m)(h := map_option f (handles m h))\<rparr>"

definition emit :: "emitted_event \<Rightarrow> manager \<Rightarrow> manager" where
  "emit e m = m\<lparr>emitted := emitted m @ [e]\<rparr>"

text \<open>Settling a promise that is already settled changes nothing.\<close>

definition resolve :: "nat \<Rightarrow> nat \<Rightarrow> manager \<Rightarrow> manager" where
  "resolve p h m =
     (if promises m p = Some Pending then m\<lparr>promises := (promises m)(p \<mapsto> Resolved h)\<rparr> else m)"

definition reject :: "nat \<Rightarrow> thrown \<Rightarrow> manager \<Rightarrow> manager" where
  "reject p e m =
     (if promises m p = Some Pending then m\<lparr>promises := (promises m)(p \<mapsto> Rejected e)\<rparr> else m)"

definition clearTimeout :: "nat \<Rightarrow> manager \<Rightarrow> manager" where
  "clearTimeout t m = m\<lparr>timers := (timers m)(t := None)\<rparr>"

definition removeSession :: "string \<Rightarrow> manager \<Rightarrow> manager" where
  "removeSession whatsappId m = m\<lparr>sessions := AList.delete whatsappId (sessions m)\<rparr>"

subsection \<open>Teardown\<close>

text \<open>
  \<^verbatim>\<open>cleanupSession\<close>. A registered session is released: \<^verbatim>\<open>end\<close> is called on it and
  the three listeners are removed. What the transport does inside \<^verbatim>\<open>end\<close> is not part
  of the repository; an exception from it is caught on the spot and only logged.
\<close>

definition released :: "Session \<Rightarrow> Session" where
  "released s = s\<lparr>s_ended := True, s_listening := False\<rparr>"

definition cleanupSession :: "string \<Rightarrow> manager \<Rightarrow> manager" where
  "cleanupSession sessionId m =
     (let m1 = (case map_of (sessions m) sessionId of
                  None \<Rightarrow> m
                | Some h \<Rightarrow> modify_handle h released m);
          m2 = m1\<lparr>sessions := AList.delete sessionId (sessions m1),
                   connectionPromises := (connectionPromises m1)(sessionId := None),
                   sessionStates := (sessionStates m1)(sessionId := None)\<rparr>;
          m3 = (case pendingReconnects m2 sessionId of
                  None \<Rightarrow> m2
                | Some t \<Rightarrow> (clearTimeout t m2)
                             \<lparr>pendingReconnects := (pendingReconnects m2)(sessionId := None)\<rparr>)
      in m3\<lparr>retryAttempts := (retryAttempts m3)(sessionId := None)\<rparr>)"

text \<open>
  \<^verbatim>\<open>deleteSession\<close>. Nothing inside its \<^verbatim>\<open>try\<close> can throw here (\<^verbatim>\<open>cleanupSession\<close>
  catches its own errors), so the \<^verbatim>\<open>catch\<close> that returns \<^verbatim>\<open>false\<close> is never entered.
\<close>

definition deleteSession :: "string \<Rightarrow> manager \<Rightarrow> bool \<times> manager" where
  "deleteSession whatsappId m =
     (let m1 = m\<lparr>deletedSessions := insert whatsappId (deletedSessions m)\<rparr>;
          m2 = (case pendingReconnects m1 whatsappId of
                  None \<Rightarrow> m1
                | Some t \<Rightarrow> (clearTimeout t m1)
                             \<lparr>pendingReconnects := (pendingReconnects m1)(whatsappId := None)\<rparr>);
          m3 = m2\<lparr>retryAttempts := (retryAttempts m2)(whatsappId := None)\<rparr>
      in (True, cleanupSession whatsappId m3))"

text \<open>
  \<^verbatim>\<open>disconnectSession\<close>. \<open>logout\<close> is what the transport's \<^verbatim>\<open>logout()\<close> does when it is
  called: \<open>None\<close> when it returns, \<open>Some e\<close> when it throws \<open>e\<close>.
\<close>

definition disconnectSession ::
  "runtime \<Rightarrow> string \<Rightarrow> thrown option \<Rightarrow> manager \<Rightarrow> bool \<times> manager" where
  "disconnectSession rt whatsappId logout m =
     (case map_of (sessions m) whatsappId of
        None \<Rightarrow> (False, m)
      | Some h \<Rightarrow>
          (case logout of
             Some e \<Rightarrow> (False, m)
           | None \<Rightarrow>
               (True, (modify_handle h (\<lambda>s. s\<lparr>s_loggedOut := True\<rparr>) m)
                        \<lparr>database := deleteAuthState rt whatsappId (database m)\<rparr>)))"

text \<open>\<^verbatim>\<open>reconcileSessionsWithDatabase\<close>: a fetch that throws is logged and the pass ends.\<close>

definition reconcileSessionsWithDatabase :: "runtime \<Rightarrow> manager \<Rightarrow> manager" where
  "reconcileSessionsWithDatabase rt m =
     (case getAllWhatsappConnections (database m) of
        Inl e \<Rightarrow> m
      | Inr dbConnections \<Rightarrow>
          (let dbIds = set (map (\<lambda>(i, r). toString rt i) dbConnections);
               m1 = fold (\<lambda>sessionId acc.
                            if sessionId \<in> dbIds then acc else snd (deleteSession sessionId acc))
                      (map fst (sessions m)) m
           in m1\<lparr>deletedSessions := {}\<rparr>))"

subsection \<open>The restart scheduler\<close>

definition baseDelay :: nat where
  "baseDelay = 2000"

definition maxDelay :: nat where
  "maxDelay = 30000"

text \<open>
  \<^verbatim>\<open>handleStreamRestart\<close> up to the point where the timer is armed, and the delay it
  computes. \<^verbatim>\<open>Math.pow\<close> and \<^verbatim>\<open>Math.min\<close> work on doubles; the product is exact while
  it is below the cap, and above it the minimum is the cap whatever the product is.
\<close>

definition backoffDelay :: "nat \<Rightarrow> nat" where
  "backoffDelay currentRetries = min (baseDelay * 2 ^ currentRetries) maxDelay"

definition handleStreamRestart :: "runtime \<Rightarrow> StartConnectionData \<Rightarrow> manager \<Rightarrow> manager" where
  "handleStreamRestart rt connectionData m =
     (let sid = cd_id connectionData;
          currentRetries = (case retryAttempts m sid of None \<Rightarrow> 0 | Some n \<Rightarrow> n)
      in if currentRetries \<ge> maxRetryAttempts then
           (let m1 = m\<lparr>retryAttempts := (retryAttempts m)(sid := None)\<rparr>
            in case updateWhatsappStatus (parseInt rt sid) ''DISCONNECTED'' None (database m1) of
                 Inl e \<Rightarrow> m1
               | Inr d \<Rightarrow> m1\<lparr>database := d\<rparr>)
         else
           (let delay = backoffDelay currentRetries;
                restartTimeout = timersMade m
            in m\<lparr>retryAttempts := (retryAttempts m)(sid \<mapsto> currentRetries + 1),
                 timers := (timers m)(restartTimeout \<mapsto> (delay, connectionData)),
                 timersMade := Suc restartTimeout,
                 pendingReconnects := (pendingReconnects m)(sid \<mapsto> restartTimeout)\<rparr>))"

subsection \<open>Opening a connection\<close>

text \<open>
  What the transport does when \<^verbatim>\<open>createConnection\<close> runs: \<^verbatim>\<open>fetchLatestBaileysVersion\<close>
  throws, \<^verbatim>\<open>makeWASocket\<close> throws, or \<^verbatim>\<open>makeWASocket\<close> returns a socket whose
  \<^verbatim>\<open>user\<close> is as given.
\<close>

datatype transport_start =
    VersionThrows thrown
  | SocketThrows thrown
  | SocketReturns "string option"

text \<open>
  \<^verbatim>\<open>createConnection\<close> up to the point where it returns its promise with the listeners
  attached. The promise of the async function and the \<^verbatim>\<open>new Promise\<close> it returns settle
  together and are one entry of \<open>promises\<close>. The result is that promise. The two awaits
  before the socket is made, for the protocol version and for the stored credentials,
  are taken as answered at once: no other call runs between them.
\<close>

definition createConnection ::
  "runtime \<Rightarrow> StartConnectionData \<Rightarrow> transport_start \<Rightarrow> manager \<Rightarrow> nat \<times> manager" where
  "createConnection rt connectionData transport m =
     (let sid = cd_id connectionData;
          p = promisesMade m;
          m0 = m\<lparr>promisesMade := Suc p\<rparr>
      in case transport of
           VersionThrows e \<Rightarrow> (p, m0\<lparr>promises := (promises m0)(p \<mapsto> Rejected e)\<rparr>)
         | SocketThrows e \<Rightarrow>
             (p, m0\<lparr>sessionStates := (sessionStates m0)(sid \<mapsto> p),
                    transportOpens := transportOpens m0 @ [sid],
                    promises := (promises m0)(p \<mapsto> Rejected e)\<rparr>)
         | SocketReturns u \<Rightarrow>
             (let h = length (transportOpens m0);
                  wsocket = \<lparr>s_id = sid, s_name = cd_name connectionData,
                             s_companyId = cd_companyId connectionData, s_status = CONNECTING,
                             s_qrCode = None, s_user = u, s_listening = True, s_ended = False,
                             s_loggedOut = False, s_sent = [], s_promise = p,
                             s_connectionData = connectionData,
                             s_auth = getAuthState rt (cd_session connectionData)\<rparr>
              in (p, m0\<lparr>sessionStates := (sessionStates m0)(sid \<mapsto> p),
                         transportOpens := transportOpens m0 @ [sid],
                         handles := (handles m0)(h \<mapsto> wsocket),
                         promises := (promises m0)(p \<mapsto> Pending)\<rparr>)))"

record start_result =
  success :: bool
  message :: string
  qrCode :: "string option"

datatype join_kind = Started | Joined

text \<open>
  A call of \<^verbatim>\<open>startConnection\<close> either returns at once or suspends on a promise, as the
  caller that started it or as one that joined it. The check for a session that is
  already connected (\<^verbatim>\<open>existingSession && existingSession.user\<close>) comes first.
\<close>

datatype start_outcome = Returned start_result | Awaiting join_kind nat

definition already_connected :: "manager \<Rightarrow> string \<Rightarrow> bool" where
  "already_connected m sid =
     (case session_of m sid of
        None \<Rightarrow> False
      | Some existingSession \<Rightarrow> s_user existingSession \<noteq> None)"

definition startConnection_begin ::
  "runtime \<Rightarrow> StartConnectionData \<Rightarrow> transport_start \<Rightarrow> manager \<Rightarrow> start_outcome \<times> manager" where
  "startConnection_begin rt connectionData transport m =
     (let sid = cd_id connectionData;
          m1 = (if sid \<in> deletedSessions m
                then m\<lparr>deletedSessions := deletedSessions m - {sid}\<rparr> else m)
      in if already_connected m1 sid
         then (Returned \<lparr>success = True,
                          message = ''Session '' @ sid @ '' already connected'',
                          qrCode = None\<rparr>, m1)
         else (case connectionPromises m1 sid of
                 Some p \<Rightarrow> (Awaiting Joined p, m1)
               | None \<Rightarrow>
                   (let (p, m2) = createConnection rt connectionData transport m1
                    in (Awaiting Started p,
                        m2\<lparr>connectionPromises := (connectionPromises m2)(sid \<mapsto> p)\<rparr>))))"

text \<open>
  The rest of \<^verbatim>\<open>startConnection\<close>, once the promise it waits for has settled
  (\<open>None\<close> while it is pending). The caller that started the attempt removes the entry
  of \<open>connectionPromises\<close>; a rejection becomes a failure message in both cases.
\<close>

definition startConnection_resume ::
  "string \<Rightarrow> join_kind \<Rightarrow> nat \<Rightarrow> manager \<Rightarrow> (start_result \<times> manager) option" where
  "startConnection_resume sid kind p m =
     (let m1 = (case kind of
                  Started \<Rightarrow> m\<lparr>connectionPromises := (connectionPromises m)(sid := None)\<rparr>
                | Joined \<Rightarrow> m)
      in case promises m p of
           None \<Rightarrow> None
         | Some Pending \<Rightarrow> None
         | Some (Resolved h) \<Rightarrow>
             Some (\<lparr>success = True,
                    message = (case kind of
                                 Started \<Rightarrow> ''Session '' @ sid @ '' initialized''
                               | Joined \<Rightarrow> ''Connection for '' @ sid @ '' established''),
                    qrCode = (case handles m h of None \<Rightarrow> None | Some s \<Rightarrow> s_qrCode s)\<rparr>, m1)
         | Some (Rejected e) \<Rightarrow>
             Some (\<lparr>success = False,
                    message = ''Error starting connection: '' @ message_of e,
                    qrCode = None\<rparr>, m1))"

subsection \<open>The listeners\<close>

text \<open>
  \<^verbatim>\<open>createConnection\<close> attaches three listeners to the socket. The one for
  \<^verbatim>\<open>messages.upsert\<close> only emits \<^verbatim>\<open>messageReceived\<close> events and is left out; \<open>emitted\<close>
  lists the events of the other two kinds.
\<close>

datatype connection_state = ConnConnecting | ConnOpen | ConnClose

text \<open>
  A \<^verbatim>\<open>connection.update\<close> event, with \<^verbatim>\<open>lastDisconnect?.error?.output?.statusCode\<close> and
  \<^verbatim>\<open>lastDisconnect?.error?.message\<close> already read out of it.
\<close>

record update =
  connection :: "connection_state option"
  statusCode :: "int option"
  errorMessage :: "string option"
  qr :: "string option"
  isNewLogin :: bool

text \<open>
  \<^verbatim>\<open>enhancedSaveState\<close> awaited with nothing else running: the request, then the writes
  it starts settle one after the other.
\<close>

definition enhancedSaveState ::
  "runtime \<Rightarrow> string \<Rightarrow> auth_closure \<Rightarrow> store \<Rightarrow> auth_closure \<times> store" where
  "enhancedSaveState rt sid a d =
     (let s1 = saveState rt (creds a) \<lparr>closure = a, db = d, in_flight = [], writes_started = 0\<rparr>
      in case write_settles rt sid s1 of
           None \<Rightarrow> (closure s1, db s1)
         | Some s2 \<Rightarrow>
             (case write_settles rt sid s2 of
                None \<Rightarrow> (closure s2, db s2)
              | Some s3 \<Rightarrow> (closure s3, db s3)))"

text \<open>
  The save that both the pairing branch and the \<^verbatim>\<open>creds.update\<close> listener make, followed
  by the update of \<^verbatim>\<open>connectionData.session\<close>.
\<close>

definition save_and_export :: "runtime \<Rightarrow> nat \<Rightarrow> manager \<Rightarrow> manager" where
  "save_and_export rt h m =
     (case handles m h of
        None \<Rightarrow> m
      | Some s \<Rightarrow>
          (let (a, d) = enhancedSaveState rt (s_id s) (s_auth s) (database m);
               sessionData = stringify rt (creds a) (keys a)
           in (modify_handle h
                 (\<lambda>s. s\<lparr>s_auth := a,
                         s_connectionData := (s_connectionData s)\<lparr>cd_session := Some sessionData\<rparr>\<rparr>) m)
              \<lparr>database := d\<rparr>))"

definition on_pairing :: "runtime \<Rightarrow> nat \<Rightarrow> update \<Rightarrow> manager \<Rightarrow> manager" where
  "on_pairing rt h upd m =
     (if isNewLogin upd \<and> connection upd = Some ConnOpen then save_and_export rt h m else m)"

definition terminal :: "update \<Rightarrow> bool" where
  "terminal upd =
     (statusCode upd = Some 401 \<or> statusCode upd = Some 403 \<or>
      (statusCode upd = Some 408 \<and> errorMessage upd = Some ''QR refs attempts ended''))"

text \<open>
  The \<^verbatim>\<open>close\<close> branch. The first component says whether the listener is over: the
  terminal case returns, and its store call is not guarded, so a throw ends the listener
  before anything is emitted or rejected.
\<close>

definition on_close :: "runtime \<Rightarrow> nat \<Rightarrow> update \<Rightarrow> manager \<Rightarrow> bool \<times> manager" where
  "on_close rt h upd m =
     (if connection upd \<noteq> Some ConnClose then (False, m)
      else case handles m h of
        None \<Rightarrow> (False, m)
      | Some s \<Rightarrow>
          (let sid = s_id s;
               m1 = removeSession sid (modify_handle h (\<lambda>s. s\<lparr>s_status := DISCONNECTED\<rparr>) m)
           in if terminal upd then
                (case updateWhatsappStatus (parseInt rt sid) ''DISCONNECTED'' None (database m1) of
                   Inl e \<Rightarrow> (True, m1)
                 | Inr d \<Rightarrow>
                     (True,
                      reject (s_promise s) (Error (''Connection closed for '' @ sid))
                        (emit (connectionUpdate
                                 \<lparr>cu_whatsappId = sid, cu_status = DISCONNECTED, cu_qrCode = None,
                                  cu_error = Some (''Connection closed for '' @ sid)\<rparr>)
                           (m1\<lparr>database := d\<rparr>))))
              else
                (False,
                 reject (s_promise s) (Error (''Connection closed for '' @ sid))
                   (emit (connectionUpdate
                            \<lparr>cu_whatsappId = sid, cu_status = DISCONNECTED, cu_qrCode = None,
                             cu_error = errorMessage upd\<rparr>)
                      (handleStreamRestart rt (s_connectionData s) m1)))))"

text \<open>
  The \<^verbatim>\<open>open\<close> branch, before its first \<^verbatim>\<open>await\<close> and after it. The two store calls
  share one \<^verbatim>\<open>try\<close>: when the first throws, the second is not made.
\<close>

definition on_open_begin :: "nat \<Rightarrow> update \<Rightarrow> manager \<Rightarrow> manager" where
  "on_open_begin h upd m =
     (if connection upd \<noteq> Some ConnOpen then m
      else case handles m h of
        None \<Rightarrow> m
      | Some s \<Rightarrow>
          (let m1 = modify_handle h (\<lambda>s. s\<lparr>s_status := CONNECTED\<rparr>) m
           in m1\<lparr>sessions := AList.update (s_id s) h (sessions m1)\<rparr>))"

definition open_store_writes :: "runtime \<Rightarrow> string \<Rightarrow> store \<Rightarrow> store" where
  "open_store_writes rt sid d =
     (case updateWhatsappStatus (parseInt rt sid) ''CONNECTED'' None d of
        Inl e \<Rightarrow> d
      | Inr d1 \<Rightarrow>
          (case clearWhatsappQRCode (parseInt rt sid) d1 of
             Inl e \<Rightarrow> d1
           | Inr d2 \<Rightarrow> d2))"

definition on_open_finish :: "runtime \<Rightarrow> nat \<Rightarrow> update \<Rightarrow> manager \<Rightarrow> manager" where
  "on_open_finish rt h upd m =
     (if connection upd \<noteq> Some ConnOpen then m
      else case handles m h of
        None \<Rightarrow> m
      | Some s \<Rightarrow>
          (let sid = s_id s
           in resolve (s_promise s) h
                (emit (connectionUpdate
                         \<lparr>cu_whatsappId = sid, cu_status = CONNECTED, cu_qrCode = None,
                          cu_error = None\<rparr>)
                   (m\<lparr>database := open_store_writes rt sid (database m)\<rparr>))))"

definition on_open :: "runtime \<Rightarrow> nat \<Rightarrow> update \<Rightarrow> manager \<Rightarrow> manager" where
  "on_open rt h upd m = on_open_finish rt h upd (on_open_begin h upd m)"

text \<open>The \<^verbatim>\<open>qr\<close> branch.\<close>

definition on_qr :: "runtime \<Rightarrow> nat \<Rightarrow> update \<Rightarrow> manager \<Rightarrow> manager" where
  "on_qr rt h upd m =
     (case qr upd of
        None \<Rightarrow> m
      | Some q \<Rightarrow>
          (case handles m h of
             None \<Rightarrow> m
           | Some s \<Rightarrow>
               (let sid = s_id s;
                    m1 = modify_handle h (\<lambda>s. s\<lparr>s_status := QR_PENDING, s_qrCode := Some q\<rparr>) m;
                    m2 = m1\<lparr>sessions := AList.update sid h (sessions m1)\<rparr>;
                    d = (case updateWhatsappStatus (parseInt rt sid) ''QR_PENDING'' (Some (Some q))
                                (database m2) of
                           Inl e \<Rightarrow> database m2
                         | Inr d1 \<Rightarrow> d1)
                in emit (connectionUpdate
                           \<lparr>cu_whatsappId = sid, cu_status = QR_PENDING, cu_qrCode = Some q,
                            cu_error = None\<rparr>)
                     (emit (qrGenerated sid q) (m2\<lparr>database := d\<rparr>)))))"

text \<open>
  The \<^verbatim>\<open>connection.update\<close> listener of socket \<open>h\<close>, run from start to end. A socket whose
  listeners were removed hears nothing.
\<close>

definition on_connection_update :: "runtime \<Rightarrow> nat \<Rightarrow> update \<Rightarrow> manager \<Rightarrow> manager" where
  "on_connection_update rt h upd m =
     (case handles m h of
        None \<Rightarrow> m
      | Some s \<Rightarrow>
          if \<not> s_listening s then m
          else (case on_close rt h upd (on_pairing rt h upd m) of
                  (True, m1) \<Rightarrow> m1
                | (False, m1) \<Rightarrow> on_qr rt h upd (on_open rt h upd m1)))"

text \<open>
  The \<^verbatim>\<open>creds.update\<close> listener; \<open>c\<close> is what the transport has made of the credentials.
\<close>

definition on_creds_update :: "runtime \<Rightarrow> nat \<Rightarrow> AuthenticationCreds \<Rightarrow> manager \<Rightarrow> manager" where
  "on_creds_update rt h c m =
     (case handles m h of
        None \<Rightarrow> m
      | Some s \<Rightarrow>
          if \<not> s_listening s then m
          else save_and_export rt h (modify_handle h (\<lambda>s. s\<lparr>s_auth := (s_auth s)\<lparr>creds := c\<rparr>\<rparr>) m))"

text \<open>
  The transport sets \<^verbatim>\<open>user\<close> on its own, when the account is authenticated; the manager
  only reads it.
\<close>

definition transport_sets_user :: "nat \<Rightarrow> string option \<Rightarrow> manager \<Rightarrow> manager" where
  "transport_sets_user h u m = modify_handle h (\<lambda>s. s\<lparr>s_user := u\<rparr>) m"

subsection \<open>The restart timer\<close>

text \<open>
  The callback of timer \<open>t\<close> up to its \<^verbatim>\<open>await this.startConnection(connectionData)\<close>
  (\<open>None\<close>: the timer is not armed), and the rest of it once that call has returned.
  \<^verbatim>\<open>cleanupSession\<close> and \<^verbatim>\<open>startConnection\<close> catch what they throw, so the callback's
  own \<^verbatim>\<open>catch\<close> is never entered.
\<close>

definition restart_fire ::
  "runtime \<Rightarrow> nat \<Rightarrow> transport_start \<Rightarrow> manager \<Rightarrow> (start_outcome \<times> manager) option" where
  "restart_fire rt t transport m =
     (case timers m t of
        None \<Rightarrow> None
      | Some (delay, connectionData) \<Rightarrow>
          (let sid = cd_id connectionData;
               m1 = m\<lparr>timers := (timers m)(t := None)\<rparr>;
               m2 = m1\<lparr>pendingReconnects := (pendingReconnects m1)(sid := None)\<rparr>;
               m3 = cleanupSession sid m2;
               m4 = m3\<lparr>connectionPromises := (connectionPromises m3)(sid := None)\<rparr>
           in Some (startConnection_begin rt connectionData transport m4)))"

definition restart_resume :: "string \<Rightarrow> start_result \<Rightarrow> manager \<Rightarrow> manager" where
  "restart_resume sid result m =
     (if success result then m\<lparr>retryAttempts := (retryAttempts m)(sid := None)\<rparr> else m)"

subsection \<open>Sending\<close>

record SendMessageData =
  sd_whatsappId :: string
  sd_to :: string
  sd_message :: string
  sd_options :: string

text \<open>
  What \<^verbatim>\<open>processMessageMedia\<close> answers: it throws, or it returns
  \<^verbatim>\<open>{success, processedMessage, error?}\<close>. What the transport's \<^verbatim>\<open>sendMessage\<close> answers:
  it throws, or it returns the sent message.
\<close>

datatype media_outcome = MediaThrows thrown | MediaResult bool string "string option"

datatype send_outcome = SendThrows thrown | SendReturns string

text \<open>
  What \<^verbatim>\<open>sendMessage\<close> returns: the structured \<^verbatim>\<open>{success: false, error}\<close>, or whatever
  the transport returned.
\<close>

datatype send_result = Failure "string option" | Sent string

text \<open>
  The gateway passes the \<^verbatim>\<open>data\<close> field of a \<^verbatim>\<open>sendMessage\<close> frame on as it came
  (\<^verbatim>\<open>data as SendMessageData\<close>), and a frame need not have one, so the argument can be
  \<^verbatim>\<open>undefined\<close> or \<^verbatim>\<open>null\<close>: that is \<open>None\<close>. \<^verbatim>\<open>sendMessage\<close> destructures its argument
  in the line before its \<^verbatim>\<open>try\<close>; on \<^verbatim>\<open>undefined\<close> that throws a TypeError, which nothing
  in \<^verbatim>\<open>sendMessage\<close> catches, and the call rejects with it (\<open>Inl\<close>). The wording of the
  message is the engine's.
\<close>

definition destructuring_TypeError :: thrown where
  "destructuring_TypeError = Error ''Cannot destructure property whatsappId of sendData''"

definition called_send :: "nat \<Rightarrow> string \<Rightarrow> string \<Rightarrow> manager \<Rightarrow> manager" where
  "called_send h jid content m = modify_handle h (\<lambda>s. s\<lparr>s_sent := s_sent s @ [(jid, content)]\<rparr>) m"

text \<open>The body of \<^verbatim>\<open>sendMessage\<close> from its \<^verbatim>\<open>try\<close> on, its \<^verbatim>\<open>catch\<close> included.\<close>

definition sendMessage_try ::
  "SendMessageData \<Rightarrow> bool \<Rightarrow> (string \<Rightarrow> bool \<Rightarrow> media_outcome) \<Rightarrow>
   (string \<Rightarrow> string \<Rightarrow> string \<Rightarrow> send_outcome) \<Rightarrow> manager \<Rightarrow> send_result \<times> manager" where
  "sendMessage_try sendData onlyAudio processMessageMedia transportSend m =
     (let whatsappId = sd_whatsappId sendData
      in case map_of (sessions m) whatsappId of
           None \<Rightarrow> (Failure (Some (''WhatsApp session '' @ whatsappId @ '' not found'')), m)
         | Some h \<Rightarrow>
             (case handles m h of
                None \<Rightarrow> (Failure (Some (''WhatsApp session '' @ whatsappId @ '' not found'')), m)
              | Some session \<Rightarrow>
                  if s_user session = None
                  then (Failure (Some (''WhatsApp session '' @ whatsappId @ '' not connected'')), m)
                  else (case processMessageMedia (sd_message sendData) onlyAudio of
                          MediaThrows e \<Rightarrow> (Failure (Some (message_of e)), m)
                        | MediaResult ok processedMessage err \<Rightarrow>
                            if \<not> ok then (Failure err, m)
                            else (case transportSend (sd_to sendData) processedMessage
                                         (sd_options sendData) of
                                    SendThrows e \<Rightarrow>
                                      (Failure (Some (message_of e)),
                                       called_send h (sd_to sendData) processedMessage m)
                                  | SendReturns sentMessage \<Rightarrow>
                                      (Sent sentMessage,
                                       called_send h (sd_to sendData) processedMessage m)))))"

text \<open>\<^verbatim>\<open>sendMessage\<close>: the destructuring of the argument, then the \<^verbatim>\<open>try\<close>.\<close>

definition sendMessage ::
  "SendMessageData option \<Rightarrow> bool \<Rightarrow> (string \<Rightarrow> bool \<Rightarrow> media_outcome) \<Rightarrow>
   (string \<Rightarrow> string \<Rightarrow> string \<Rightarrow> send_outcome) \<Rightarrow> manager \<Rightarrow>
   thrown + send_result \<times> manager" where
  "sendMessage sendData onlyAudio processMessageMedia transportSend m =
     (case sendData of
        None \<Rightarrow> Inl destructuring_TypeError
      | Some sd \<Rightarrow> Inr (sendMessage_try sd onlyAudio processMessageMedia transportSend m))"

section \<open>Invariants and example data\<close>

text \<open>
  Two invariants of the save closure. \<open>coalesced\<close>: a write is in flight exactly while
  \<open>saveInProgress\<close> is set, and then it is the only one. \<open>synced\<close>, for a store that
  answers: with nothing in flight nothing is pending and, once a write was made, the
  stored blob is the serialised current state; with a write in flight and nothing
  pending, that write carries the current state.
\<close>

definition coalesced :: "save_system \<Rightarrow> bool" where
  "coalesced s = (if saveInProgress (closure s) then length (in_flight s) = 1 else in_flight s = [])"

definition synced :: "runtime \<Rightarrow> string \<Rightarrow> save_system \<Rightarrow> bool" where
  "synced rt sid s =
     (reachable (db s) \<and>
      (case in_flight s of
         [] \<Rightarrow> \<not> pendingSave (closure s) \<and>
               (0 < writes_started s \<longrightarrow>
                 (\<forall>r. stored_row rt sid (db s) = Some r \<longrightarrow>
                   row_session r = Some (stringify rt (creds (closure s)) (keys (closure s)))))
       | b # bs \<Rightarrow> \<not> pendingSave (closure s) \<longrightarrow>
                   b = stringify rt (creds (closure s)) (keys (closure s))))"

text \<open>
  Two abbreviations for the proofs about the listeners: what the \<^verbatim>\<open>close\<close> branch does
  first, and the session object after the save of the pairing branch.
\<close>


definition closing :: "nat \<Rightarrow> string \<Rightarrow> manager \<Rightarrow> manager" where
  "closing h sid m = removeSession sid (modify_handle h (\<lambda>s. s\<lparr>s_status := DISCONNECTED\<rparr>) m)"

definition paired :: "runtime \<Rightarrow> Session \<Rightarrow> store \<Rightarrow> Session" where
  "paired rt s d =
     (let (a, d') = enhancedSaveState rt (s_id s) (s_auth s) d
      in s\<lparr>s_auth := a,
           s_connectionData := (s_connectionData s)\<lparr>cd_session := Some (stringify rt (creds a) (keys a))\<rparr>\<rparr>)"

text \<open>
  For the reconciliation pass, with \<open>m\<close> the manager it starts from: \<open>evicted\<close> is what
  holds of an id once \<^verbatim>\<open>deleteSession\<close> has run for it, and \<open>not_yet_evicted\<close> what holds
  of it until then. Timers are only ever disarmed during the pass.
\<close>

definition evicted :: "manager \<Rightarrow> nat \<Rightarrow> string \<Rightarrow> manager \<Rightarrow> bool" where
  "evicted m h sid acc =
     (map_of (sessions acc) sid = None \<and> pendingReconnects acc sid = None \<and>
      retryAttempts acc sid = None \<and> connectionPromises acc sid = None \<and>
      (\<forall>t. pendingReconnects m sid = Some t \<longrightarrow> timers acc t = None) \<and>
      (\<forall>t. timers acc t \<noteq> None \<longrightarrow> timers acc t = timers m t) \<and>
      (handles m h \<noteq> None \<longrightarrow>
         (\<exists>s'. handles acc h = Some s' \<and> s_ended s' \<and> \<not> s_listening s')))"

definition not_yet_evicted :: "manager \<Rightarrow> nat \<Rightarrow> string \<Rightarrow> manager \<Rightarrow> bool" where
  "not_yet_evicted m h sid acc =
     (map_of (sessions acc) sid = Some h \<and> pendingReconnects acc sid = pendingReconnects m sid \<and>
      (\<forall>t. timers acc t \<noteq> None \<longrightarrow> timers acc t = timers m t) \<and>
      (handles m h \<noteq> None \<longrightarrow> handles acc h \<noteq> None))"

text \<open>A runtime and a store to evaluate the model on: one row, id 42.\<close>

definition example_runtime :: runtime where
  "example_runtime =
     \<lparr>parseInt = (\<lambda>s. if s = ''42'' then Some 42 else None),
      toString = (\<lambda>i. if i = 42 then ''42'' else ''0''),
      stringify = (\<lambda>c ks. c @ concat (map fst ks)),
      parse = (\<lambda>t. if t = ''saved'' then Some (''paired'', []) else None),
      initAuthCreds = ''fresh''\<rparr>"

definition example_store :: store where
  "example_store =
     \<lparr>rows = [(42, \<lparr>row_name = ''main'', row_session = None, row_status = Some ''CONNECTING'',
                     row_qrcode = None, row_companyId = 1\<rparr>)],
      reachable = True\<rparr>"

text \<open>
  A connection request for that row without stored credentials, one with them, one for
  an id that has no row, and the transport events used below.
\<close>

definition example_connectionData :: StartConnectionData where
  "example_connectionData =
     \<lparr>cd_id = ''42'', cd_name = Some ''main'', cd_companyId = Some 1, cd_session = None\<rparr>"

definition restored_connectionData :: StartConnectionData where
  "restored_connectionData = example_connectionData\<lparr>cd_session := Some ''saved''\<rparr>"

definition orphan_connectionData :: StartConnectionData where
  "orphan_connectionData =
     \<lparr>cd_id = ''7'', cd_name = Some ''gone'', cd_companyId = Some 1, cd_session = None\<rparr>"

definition qr_issued :: "string \<Rightarrow> update" where
  "qr_issued q =
     \<lparr>connection = None, statusCode = None, errorMessage = None, qr = Some q, isNewLogin = False\<rparr>"

definition opened :: update where
  "opened =
     \<lparr>connection = Some ConnOpen, statusCode = None, errorMessage = None, qr = None,
      isNewLogin = False\<rparr>"

definition closed :: "int \<Rightarrow> string \<Rightarrow> update" where
  "closed code msg =
     \<lparr>connection = Some ConnClose, statusCode = Some code, errorMessage = Some msg, qr = None,
      isNewLogin = False\<rparr>"

text \<open>A message to send, a media pipeline that rejects it and one that passes it on.\<close>

definition example_sendData :: SendMessageData where
  "example_sendData =
     \<lparr>sd_whatsappId = ''42'', sd_to = ''5511999990000@s.whatsapp.net'', sd_message = ''audio'',
      sd_options = []\<rparr>"

definition rejecting_media :: "string \<Rightarrow> bool \<Rightarrow> media_outcome" where
  "rejecting_media msg onlyAudio = MediaResult False [] (Some ''Invalid audio data format'')"

definition passing_media :: "string \<Rightarrow> bool \<Rightarrow> media_outcome" where
  "passing_media msg onlyAudio = MediaResult True msg None"

definition accepting_transport :: "string \<Rightarrow> string \<Rightarrow> string \<Rightarrow> send_outcome" where
  "accepting_transport jid content options = SendReturns (''sent:'' @ content)"

text \<open>
  A manager with two restart timers armed for one id: a connection for an id without a
  row closes and a restart is scheduled; a client starts the connection again, it closes
  again and a second restart is scheduled, which takes the place of the first in the
  pending-reconnect map; the connection is started once more and shows a QR.
\<close>

definition twice_closed :: manager where
  "twice_closed =
    (let m1 = snd (startConnection_begin example_runtime orphan_connectionData (SocketReturns None)
                   (new_manager example_store));
         m2 = on_connection_update example_runtime 0 (closed 428 ''Connection Closed'') m1;
         m3 = snd (the (startConnection_resume ''7'' Started 0 m2));
         m4 = snd (startConnection_begin example_runtime orphan_connectionData (SocketReturns None) m3);
         m5 = on_connection_update example_runtime 1 (closed 428 ''Connection Closed'') m4;
         m6 = snd (the (startConnection_resume ''7'' Started 1 m5));
         m7 = snd (startConnection_begin example_runtime orphan_connectionData (SocketReturns None) m6)
     in on_connection_update example_runtime 2 (qr_issued ''qr-1'') m7)"

section \<open>The coalesced save\<close>

lemma map_of_update_where:
  "map_of (update_where k f rs) j = (if j = k then map_option f (map_of rs k) else map_of rs j)"
  by (induction rs) (auto simp: update_where_def)

lemma coalesced_saveState: "coalesced s \<Longrightarrow> coalesced (saveState rt c s)"
  by (auto simp: coalesced_def saveState_def Let_def)

lemma coalesced_settles: "coalesced s \<Longrightarrow> write_settles rt sid s = Some s' \<Longrightarrow> coalesced s'"
  by (auto simp: coalesced_def write_settles_def saveState_def Let_def
      split: list.splits sum.splits if_splits)

lemma coalesced_step: "coalesced s \<Longrightarrow> save_step rt sid e s = Some s' \<Longrightarrow> coalesced s'"
proof (cases e)
  case (Request c)
  then show "coalesced s \<Longrightarrow> save_step rt sid e s = Some s' \<Longrightarrow> coalesced s'"
    using coalesced_saveState by auto
next
  case (KeysSet data)
  assume c: "coalesced s" and st: "save_step rt sid e s = Some s'"
  have "coalesced (s\<lparr>closure := (closure s)\<lparr>keys := merge_keys (keys (closure s)) data\<rparr>\<rparr>)"
    using c by (simp add: coalesced_def)
  then show "coalesced s'"
    using st KeysSet by (auto simp: keys_set_def Let_def intro: coalesced_saveState)
next
  case Settle
  then show "coalesced s \<Longrightarrow> save_step rt sid e s = Some s' \<Longrightarrow> coalesced s'"
    using coalesced_settles by auto
next
  case StoreDown
  then show "coalesced s \<Longrightarrow> save_step rt sid e s = Some s' \<Longrightarrow> coalesced s'"
    by (auto simp: coalesced_def)
next
  case StoreUp
  then show "coalesced s \<Longrightarrow> save_step rt sid e s = Some s' \<Longrightarrow> coalesced s'"
    by (auto simp: coalesced_def)
qed

lemma coalesced_run: "save_run rt sid evs s = Some s' \<Longrightarrow> coalesced s \<Longrightarrow> coalesced s'"
  by (induction evs arbitrary: s) (auto split: option.splits dest: coalesced_step)

lemma coalesced_init: "coalesced (save_init rt i d)"
  by (auto simp: coalesced_def save_init_def getAuthState_def Let_def split: option.splits)

lemma synced_saveState: "coalesced s \<Longrightarrow> synced rt sid s \<Longrightarrow> synced rt sid (saveState rt c s)"
  by (auto simp: coalesced_def synced_def saveState_def Let_def split: list.splits if_splits)

lemma synced_keys_set: "coalesced s \<Longrightarrow> synced rt sid s \<Longrightarrow> synced rt sid (keys_set rt data s)"
  by (auto simp: coalesced_def synced_def keys_set_def saveState_def Let_def split: list.splits if_splits)

lemma synced_settles:
  "coalesced s \<Longrightarrow> synced rt sid s \<Longrightarrow> parseInt rt sid = Some k \<Longrightarrow>
   write_settles rt sid s = Some s' \<Longrightarrow> synced rt sid s'"
  by (auto simp: coalesced_def synced_def write_settles_def saveState_def Let_def
      updateWhatsappSession_def query_update_def stored_row_def map_of_update_where
      split: list.splits if_splits)


lemma synced_step:
  "coalesced s \<Longrightarrow> synced rt sid s \<Longrightarrow> parseInt rt sid = Some k \<Longrightarrow> e \<noteq> StoreDown \<Longrightarrow>
   save_step rt sid e s = Some s' \<Longrightarrow> synced rt sid s'"
proof (cases e)
  case StoreUp
  assume sy: "synced rt sid s" and "save_step rt sid e s = Some s'"
  then have "s' = s"
    using StoreUp by (auto simp: synced_def)
  then show "synced rt sid s'"
    using sy by simp
qed (auto simp: synced_saveState synced_keys_set synced_settles)

lemma synced_run:
  "save_run rt sid evs s = Some s' \<Longrightarrow> coalesced s \<Longrightarrow> synced rt sid s \<Longrightarrow>
   parseInt rt sid = Some k \<Longrightarrow> StoreDown \<notin> set evs \<Longrightarrow> synced rt sid s'"
proof (induction evs arbitrary: s)
  case Nil
  then show ?case by simp
next
  case (Cons e es)
  from Cons.prems(1) obtain s1 where s1: "save_step rt sid e s = Some s1"
    and run: "save_run rt sid es s1 = Some s'"
    by (auto split: option.splits)
  have "coalesced s1" using Cons.prems(2) s1 by (rule coalesced_step)
  moreover have "e \<noteq> StoreDown" using Cons.prems(5) by auto
  then have "synced rt sid s1"
    using synced_step [OF Cons.prems(2) Cons.prems(3) Cons.prems(4) _ s1] by simp
  ultimately show ?case
    using Cons.IH [OF run] Cons.prems by simp
qed

lemma synced_init: "reachable d \<Longrightarrow> synced rt sid (save_init rt i d)"
  by (simp add: synced_def save_init_def getAuthState_def Let_def split: option.splits)

lemma creds_step_other:
  "save_step rt sid e s = Some s' \<Longrightarrow> \<forall>c. e \<noteq> Request c \<Longrightarrow> creds (closure s') = creds (closure s)"
  by (cases e) (auto simp: keys_set_def saveState_def write_settles_def Let_def
      split: list.splits sum.splits if_splits)

lemma creds_run_other:
  "save_run rt sid es s = Some s' \<Longrightarrow> \<forall>e\<in>set es. \<forall>c. e \<noteq> Request c \<Longrightarrow>
   creds (closure s') = creds (closure s)"
proof (induction es arbitrary: s)
  case Nil
  then show ?case by simp
next
  case (Cons e es)
  from Cons.prems(1) obtain s1 where s1: "save_step rt sid e s = Some s1"
    and run: "save_run rt sid es s1 = Some s'"
    by (auto split: option.splits)
  have "creds (closure s1) = creds (closure s)"
    using s1 Cons.prems(2) by (auto intro: creds_step_other)
  then show ?case using Cons.IH [OF run] Cons.prems(2) by simp
qed

lemma save_run_append:
  "save_run rt sid (xs @ ys) s =
     (case save_run rt sid xs s of None \<Rightarrow> None | Some s1 \<Rightarrow> save_run rt sid ys s1)"
  by (induction xs arbitrary: s) (auto split: option.splits)

lemma creds_last_request:
  assumes "save_run rt sid (pre @ Request c # post) s = Some s'"
    and "\<forall>e\<in>set post. \<forall>c'. e \<noteq> Request c'"
  shows "creds (closure s') = c"
proof -
  from assms(1) obtain s1 where "save_run rt sid pre s = Some s1"
    and run: "save_run rt sid post (saveState rt c s1) = Some s'"
    by (auto simp: save_run_append split: option.splits)
  have "creds (closure s') = creds (closure (saveState rt c s1))"
    using run assms(2) by (rule creds_run_other)
  then show ?thesis by (simp add: saveState_def Let_def)
qed

lemma saveState_while_in_progress:
  "saveInProgress (closure s) \<Longrightarrow>
   saveState rt c s = s\<lparr>closure := (closure s)\<lparr>creds := c, pendingSave := True\<rparr>\<rparr>"
  by (simp add: saveState_def Let_def)

lemma settle_with_pending:
  assumes "coalesced s" and "in_flight s \<noteq> []" and "pendingSave (closure s)"
    and "reachable (db s)" and "parseInt rt sid = Some k"
  shows "\<exists>s'. write_settles rt sid s = Some s' \<and>
           in_flight s' = [stringify rt (creds (closure s)) (keys (closure s))] \<and>
           writes_started s' = Suc (writes_started s) \<and> \<not> pendingSave (closure s') \<and>
           saveInProgress (closure s')"
proof -
  from assms(1,2) obtain blob where fl: "in_flight s = [blob]" and busy: "saveInProgress (closure s)"
    by (cases "in_flight s") (auto simp: coalesced_def split: if_splits)
  have up: "updateWhatsappSession (parseInt rt sid) blob (db s) =
      Inr ((db s)\<lparr>rows := update_where k (\<lambda>r. r\<lparr>row_session := Some blob\<rparr>) (rows (db s))\<rparr>)"
    using assms(4,5) by (simp add: updateWhatsappSession_def query_update_def)
  show ?thesis
    using fl assms(3) by (simp add: write_settles_def up saveState_def Let_def)
qed

text \<open>
  Claim C2. Take any sequence of save requests, key updates, settling writes and store
  outages on a closure fresh from \<^verbatim>\<open>getAuthState\<close>, and the state \<open>s\<close> it leads to.
  At most two writes are in flight in \<open>s\<close> (in fact at most one). While a write is in
  flight, a request only records the credentials and sets the pending marker: no write
  is started and the store is untouched. When the write in flight settles on a store
  that answers with the pending marker set, exactly one further write starts, of the
  state that is current then, and the marker is cleared. When the store answered
  throughout, nothing is in flight any more and some write was made, the stored blob
  is the serialised current state; and the current credentials are those of the last
  request.
\<close>

theorem saveState_coalesces:
  assumes run: "save_run rt sid evs (save_init rt initialSession d) = Some s"
  shows "length (in_flight s) \<le> 2 \<and>
    (in_flight s \<noteq> [] \<longrightarrow>
       (\<forall>c. saveState rt c s = s\<lparr>closure := (closure s)\<lparr>creds := c, pendingSave := True\<rparr>\<rparr>)) \<and>
    (in_flight s \<noteq> [] \<and> pendingSave (closure s) \<and> reachable (db s) \<and> parseInt rt sid \<noteq> None \<longrightarrow>
       (\<exists>s'. write_settles rt sid s = Some s' \<and>
          in_flight s' = [stringify rt (creds (closure s)) (keys (closure s))] \<and>
          writes_started s' = Suc (writes_started s) \<and> \<not> pendingSave (closure s'))) \<and>
    (reachable d \<and> StoreDown \<notin> set evs \<and> in_flight s = [] \<and> 0 < writes_started s \<longrightarrow>
       (\<forall>r. stored_row rt sid (db s) = Some r \<longrightarrow>
          row_session r = Some (stringify rt (creds (closure s)) (keys (closure s))))) \<and>
    (\<forall>pre c post. evs = pre @ Request c # post \<and> (\<forall>e\<in>set post. \<forall>c'. e \<noteq> Request c') \<longrightarrow>
       creds (closure s) = c)"
proof -
  have co: "coalesced s"
    using run coalesced_init by (rule coalesced_run)
  have one: "length (in_flight s) \<le> 1" and busy: "in_flight s \<noteq> [] \<Longrightarrow> saveInProgress (closure s)"
    using co by (auto simp: coalesced_def split: if_splits)
  have a: "length (in_flight s) \<le> 2" using one by simp
  have b: "in_flight s \<noteq> [] \<longrightarrow>
       (\<forall>c. saveState rt c s = s\<lparr>closure := (closure s)\<lparr>creds := c, pendingSave := True\<rparr>\<rparr>)"
  proof (intro impI allI)
    fix c assume "in_flight s \<noteq> []"
    then have "saveInProgress (closure s)" by (rule busy)
    then show "saveState rt c s = s\<lparr>closure := (closure s)\<lparr>creds := c, pendingSave := True\<rparr>\<rparr>"
      by (rule saveState_while_in_progress)
  qed
  have c: "in_flight s \<noteq> [] \<and> pendingSave (closure s) \<and> reachable (db s) \<and> parseInt rt sid \<noteq> None \<longrightarrow>
       (\<exists>s'. write_settles rt sid s = Some s' \<and>
          in_flight s' = [stringify rt (creds (closure s)) (keys (closure s))] \<and>
          writes_started s' = Suc (writes_started s) \<and> \<not> pendingSave (closure s'))"
  proof (intro impI, elim conjE)
    assume fl: "in_flight s \<noteq> []" and pe: "pendingSave (closure s)" and re: "reachable (db s)"
      and "parseInt rt sid \<noteq> None"
    then obtain k where k: "parseInt rt sid = Some k" by auto
    from settle_with_pending [OF co fl pe re k] obtain s' where
      "write_settles rt sid s = Some s'"
      "in_flight s' = [stringify rt (creds (closure s)) (keys (closure s))]"
      "writes_started s' = Suc (writes_started s)" "\<not> pendingSave (closure s')"
      by auto
    then show "\<exists>s'. write_settles rt sid s = Some s' \<and>
          in_flight s' = [stringify rt (creds (closure s)) (keys (closure s))] \<and>
          writes_started s' = Suc (writes_started s) \<and> \<not> pendingSave (closure s')"
      by (intro exI [of _ s']) simp
  qed
  have d: "reachable d \<and> StoreDown \<notin> set evs \<and> in_flight s = [] \<and> 0 < writes_started s \<longrightarrow>
       (\<forall>r. stored_row rt sid (db s) = Some r \<longrightarrow>
          row_session r = Some (stringify rt (creds (closure s)) (keys (closure s))))"
  proof (cases "parseInt rt sid")
    case None
    then show ?thesis by (simp add: stored_row_def)
  next
    case (Some k)
    show ?thesis
    proof (intro impI, elim conjE)
      assume "reachable d" and "StoreDown \<notin> set evs" and idle: "in_flight s = []"
        and started: "0 < writes_started s"
      then have "synced rt sid s"
        using synced_run [OF run coalesced_init synced_init Some] by simp
      then show "\<forall>r. stored_row rt sid (db s) = Some r \<longrightarrow>
          row_session r = Some (stringify rt (creds (closure s)) (keys (closure s)))"
        using idle started by (simp add: synced_def)
    qed
  qed
  have e: "\<forall>pre c post. evs = pre @ Request c # post \<and> (\<forall>e\<in>set post. \<forall>c'. e \<noteq> Request c') \<longrightarrow>
       creds (closure s) = c"
  proof (intro allI impI, elim conjE)
    fix pre c post
    assume "evs = pre @ Request c # post" and "\<forall>e\<in>set post. \<forall>c'. e \<noteq> Request c'"
    then show "creds (closure s) = c"
      using run creds_last_request by simp
  qed
  from a b c d e show ?thesis by (intro conjI)
qed

text \<open>
  An instance: two requests while the first write is in flight, then both writes settle.
\<close>

lemmas save_eval =
  save_init_def getAuthState_def saveState_def write_settles_def keys_set_def Let_def
  updateWhatsappSession_def query_update_def update_where_def stored_row_def
  example_runtime_def example_store_def

theorem saveState_coalesces_witness:
  "(\<exists>s. save_run example_runtime ''42'' [Request ''a'', Request ''b'']
            (save_init example_runtime None example_store) = Some s \<and>
        in_flight s = [''a''] \<and> pendingSave (closure s) \<and> length (in_flight s) \<le> 2 \<and>
        saveState example_runtime ''c'' s = s\<lparr>closure := (closure s)\<lparr>creds := ''c'', pendingSave := True\<rparr>\<rparr> \<and>
        (\<exists>s'. write_settles example_runtime ''42'' s = Some s' \<and> in_flight s' = [''b''] \<and>
              writes_started s' = Suc (writes_started s))) \<and>
   (\<exists>s. save_run example_runtime ''42'' [Request ''a'', Request ''b'', Settle, Settle]
            (save_init example_runtime None example_store) = Some s \<and>
        in_flight s = [] \<and> writes_started s = 2 \<and> creds (closure s) = ''b'' \<and>
        map_option row_session (stored_row example_runtime ''42'' (db s)) = Some (Some ''b''))"
proof -
  define mid where "mid = the (save_run example_runtime ''42'' [Request ''a'', Request ''b'']
            (save_init example_runtime None example_store))"
  define fin where "fin = the (save_run example_runtime ''42'' [Request ''a'', Request ''b'', Settle, Settle]
            (save_init example_runtime None example_store))"
  have mid: "save_run example_runtime ''42'' [Request ''a'', Request ''b'']
            (save_init example_runtime None example_store) = Some mid"
    unfolding mid_def by (simp add: save_eval cong: let_weak_cong)
  have fin: "save_run example_runtime ''42'' [Request ''a'', Request ''b'', Settle, Settle]
            (save_init example_runtime None example_store) = Some fin"
    unfolding fin_def by (simp add: save_eval cong: let_weak_cong)
  have m1: "in_flight mid = [''a'']" and m2: "pendingSave (closure mid)"
    and m3: "reachable (db mid)" and m4: "parseInt example_runtime ''42'' \<noteq> None"
    and m5: "stringify example_runtime (creds (closure mid)) (keys (closure mid)) = ''b''"
    unfolding mid_def by (simp_all add: save_eval cong: let_weak_cong)
  have f1: "in_flight fin = []" and f2: "writes_started fin = 2"
    and f3: "reachable example_store" and f4: "StoreDown \<notin> set [Request ''a'', Request ''b'', Settle, Settle]"
    and f5: "stringify example_runtime (creds (closure fin)) (keys (closure fin)) = ''b''"
    and f6: "stored_row example_runtime ''42'' (db fin) \<noteq> None"
    unfolding fin_def by (simp_all add: save_eval cong: let_weak_cong)
  have f7: "[Request ''a'', Request ''b'', Settle, Settle] = [Request ''a''] @ Request ''b'' # [Settle, Settle] \<and>
      (\<forall>e\<in>set [Settle, Settle]. \<forall>c'. e \<noteq> Request c')"
    by simp
  note M = saveState_coalesces [OF mid]
  note F = saveState_coalesces [OF fin]
  have a1: "length (in_flight mid) \<le> 2"
    using M [THEN conjunct1] .
  have a2: "saveState example_runtime ''c'' mid =
      mid\<lparr>closure := (closure mid)\<lparr>creds := ''c'', pendingSave := True\<rparr>\<rparr>"
    using M [THEN conjunct2, THEN conjunct1] m1 by simp
  have "\<exists>s'. write_settles example_runtime ''42'' mid = Some s' \<and>
          in_flight s' = [stringify example_runtime (creds (closure mid)) (keys (closure mid))] \<and>
          writes_started s' = Suc (writes_started mid) \<and> \<not> pendingSave (closure s')"
    using M [THEN conjunct2, THEN conjunct2, THEN conjunct1] m1 m2 m3 m4 by simp
  then obtain s' where "write_settles example_runtime ''42'' mid = Some s'"
    and "in_flight s' = [''b'']" and "writes_started s' = Suc (writes_started mid)"
    unfolding m5 by auto
  then have a3: "\<exists>s'. write_settles example_runtime ''42'' mid = Some s' \<and> in_flight s' = [''b''] \<and>
              writes_started s' = Suc (writes_started mid)"
    by (intro exI [of _ s']) simp
  have "\<forall>r. stored_row example_runtime ''42'' (db fin) = Some r \<longrightarrow> row_session r = Some ''b''"
    using F [THEN conjunct2, THEN conjunct2, THEN conjunct2, THEN conjunct1] f1 f2 f3 f4
    unfolding f5 by simp
  then have b1: "map_option row_session (stored_row example_runtime ''42'' (db fin)) = Some (Some ''b'')"
    using f6 by (cases "stored_row example_runtime ''42'' (db fin)") simp_all
  have b2: "creds (closure fin) = ''b''"
    using F [THEN conjunct2, THEN conjunct2, THEN conjunct2, THEN conjunct2] f7 by blast
  have left: "\<exists>s. save_run example_runtime ''42'' [Request ''a'', Request ''b'']
            (save_init example_runtime None example_store) = Some s \<and>
        in_flight s = [''a''] \<and> pendingSave (closure s) \<and> length (in_flight s) \<le> 2 \<and>
        saveState example_runtime ''c'' s = s\<lparr>closure := (closure s)\<lparr>creds := ''c'', pendingSave := True\<rparr>\<rparr> \<and>
        (\<exists>s'. write_settles example_runtime ''42'' s = Some s' \<and> in_flight s' = [''b''] \<and>
              writes_started s' = Suc (writes_started s))"
    using mid m1 m2 a1 a2 a3 by (intro exI [of _ mid]) simp
  have right: "\<exists>s. save_run example_runtime ''42'' [Request ''a'', Request ''b'', Settle, Settle]
            (save_init example_runtime None example_store) = Some s \<and>
        in_flight s = [] \<and> writes_started s = 2 \<and> creds (closure s) = ''b'' \<and>
        map_option row_session (stored_row example_runtime ''42'' (db s)) = Some (Some ''b'')"
    using fin f1 f2 b1 b2 by (intro exI [of _ fin]) simp
  from left right show ?thesis by (rule conjI)
qed

section \<open>Teardown\<close>

text \<open>\<^verbatim>\<open>cleanupSession\<close> and \<^verbatim>\<open>deleteSession\<close> as one update of the manager.\<close>

lemma cleanupSession_eq:
  "cleanupSession sid m =
     m\<lparr>sessions := AList.delete sid (sessions m),
       connectionPromises := (connectionPromises m)(sid := None),
       sessionStates := (sessionStates m)(sid := None),
       pendingReconnects := (pendingReconnects m)(sid := None),
       retryAttempts := (retryAttempts m)(sid := None),
       timers := (case pendingReconnects m sid of None \<Rightarrow> timers m | Some t \<Rightarrow> (timers m)(t := None)),
       handles := (case map_of (sessions m) sid of
                     None \<Rightarrow> handles m
                   | Some h \<Rightarrow> (handles m)(h := map_option released (handles m h)))\<rparr>"
proof (cases "map_of (sessions m) sid")
  case None
  then show ?thesis
    by (cases "pendingReconnects m sid")
      (simp_all add: cleanupSession_def Let_def clearTimeout_def fun_upd_idem)
next
  case (Some h)
  then show ?thesis
    by (cases "pendingReconnects m sid")
      (simp_all add: cleanupSession_def Let_def clearTimeout_def modify_handle_def fun_upd_idem)
qed

lemma deleteSession_eq:
  "deleteSession sid m =
     (True,
      m\<lparr>deletedSessions := insert sid (deletedSessions m),
        sessions := AList.delete sid (sessions m),
        connectionPromises := (connectionPromises m)(sid := None),
        sessionStates := (sessionStates m)(sid := None),
        pendingReconnects := (pendingReconnects m)(sid := None),
        retryAttempts := (retryAttempts m)(sid := None),
        timers := (case pendingReconnects m sid of None \<Rightarrow> timers m | Some t \<Rightarrow> (timers m)(t := None)),
        handles := (case map_of (sessions m) sid of
                      None \<Rightarrow> handles m
                    | Some h \<Rightarrow> (handles m)(h := map_option released (handles m h)))\<rparr>)"
  by (cases "pendingReconnects m sid"; cases "map_of (sessions m) sid")
    (simp_all add: deleteSession_def Let_def clearTimeout_def cleanupSession_eq fun_upd_idem)

lemma map_of_delete_self: "map_of (AList.delete k al) k = None"
  by (simp add: AList.delete_conv')

lemmas manager_eval =
  new_manager_def session_of_def modify_handle_def emit_def resolve_def reject_def
  clearTimeout_def removeSession_def released_def cleanupSession_def deleteSession_def
  disconnectSession_def deleteAuthState_def handleStreamRestart_def backoffDelay_def baseDelay_def
  maxDelay_def maxRetryAttempts_def createConnection_def already_connected_def startConnection_begin_def
  startConnection_resume_def enhancedSaveState_def save_and_export_def on_pairing_def
  terminal_def on_close_def on_open_begin_def open_store_writes_def on_open_finish_def on_open_def on_qr_def
  on_connection_update_def restart_fire_def restart_resume_def getAuthState_def
  updateWhatsappStatus_def clearWhatsappQRCode_def updateWhatsappSession_def query_update_def
  update_where_def stored_row_def example_runtime_def example_store_def
  example_connectionData_def restored_connectionData_def orphan_connectionData_def
  transport_sets_user_def qr_issued_def opened_def closed_def Let_def

text \<open>
  Claim C10. For an id that is not in the registry, \<^verbatim>\<open>disconnectSession\<close> returns
  \<^verbatim>\<open>false\<close> and changes nothing: no logout, no write to the store. Whenever the call
  does change the store, a session was registered under the id.
\<close>

theorem disconnectSession_unregistered:
  "(map_of (sessions m) sid = None \<longrightarrow> disconnectSession rt sid logout m = (False, m)) \<and>
   (database (snd (disconnectSession rt sid logout m)) \<noteq> database m \<longrightarrow>
      map_of (sessions m) sid \<noteq> None)"
  by (auto simp: disconnectSession_def split: option.splits)

text \<open>
  An instance of each part: an empty manager, and a session that has just opened, whose
  stored credentials are overwritten with the empty string.
\<close>

theorem disconnectSession_unregistered_witness:
  "disconnectSession example_runtime ''42'' None (new_manager example_store) =
     (False, new_manager example_store) \<and>
   (let m = on_connection_update example_runtime 0 opened
              (snd (startConnection_begin example_runtime restored_connectionData
                      (SocketReturns (Some ''me'')) (new_manager example_store)))
    in fst (disconnectSession example_runtime ''42'' None m) \<and>
       map_of (sessions m) ''42'' = Some 0 \<and>
       map_option row_session (stored_row example_runtime ''42''
          (database (snd (disconnectSession example_runtime ''42'' None m)))) = Some (Some []))"
proof -
  have "map_of (sessions (new_manager example_store)) ''42'' = None"
    by (simp add: new_manager_def)
  then have a: "disconnectSession example_runtime ''42'' None (new_manager example_store) =
     (False, new_manager example_store)"
    by (rule disconnectSession_unregistered
        [of "new_manager example_store" "''42''" example_runtime None, THEN conjunct1, THEN mp])
  define m where "m = on_connection_update example_runtime 0 opened
              (snd (startConnection_begin example_runtime restored_connectionData
                      (SocketReturns (Some ''me'')) (new_manager example_store)))"
  have ch: "database (snd (disconnectSession example_runtime ''42'' None m)) \<noteq> database m"
    unfolding m_def by (simp add: manager_eval cong: let_weak_cong)
  have b: "map_of (sessions m) ''42'' \<noteq> None"
    using ch
    by (rule disconnectSession_unregistered
        [of m "''42''" example_runtime None, THEN conjunct2, THEN mp])
  have c: "fst (disconnectSession example_runtime ''42'' None m) \<and>
       map_of (sessions m) ''42'' = Some 0 \<and>
       map_option row_session (stored_row example_runtime ''42''
          (database (snd (disconnectSession example_runtime ''42'' None m)))) = Some (Some [])"
    unfolding m_def by (simp add: manager_eval cong: let_weak_cong)
  have d: "let m = on_connection_update example_runtime 0 opened
              (snd (startConnection_begin example_runtime restored_connectionData
                      (SocketReturns (Some ''me'')) (new_manager example_store)))
    in fst (disconnectSession example_runtime ''42'' None m) \<and>
       map_of (sessions m) ''42'' = Some 0 \<and>
       map_option row_session (stored_row example_runtime ''42''
          (database (snd (disconnectSession example_runtime ''42'' None m)))) = Some (Some [])"
    unfolding Let_def by (rule c [unfolded m_def])
  from a d show ?thesis by (rule conjI)
qed

text \<open>
  Claim C9. \<^verbatim>\<open>deleteSession\<close> returns \<^verbatim>\<open>true\<close> in every state. A second call
  right after the first returns \<^verbatim>\<open>true\<close> again and leaves the state as the first call
  left it. On an id with no session, timer, retry count, connection promise or session
  state, the call returns \<^verbatim>\<open>true\<close> and only adds the id to the deleted set. The model
  has no state in which the call returns \<^verbatim>\<open>false\<close>.
\<close>

theorem deleteSession_idempotent:
  "fst (deleteSession sid m) = True \<and>
   deleteSession sid (snd (deleteSession sid m)) = (True, snd (deleteSession sid m)) \<and>
   (map_of (sessions m) sid = None \<and> pendingReconnects m sid = None \<and> retryAttempts m sid = None \<and>
    connectionPromises m sid = None \<and> sessionStates m sid = None \<longrightarrow>
      deleteSession sid m = (True, m\<lparr>deletedSessions := insert sid (deletedSessions m)\<rparr>))"
proof (intro conjI impI)
  show "fst (deleteSession sid m) = True"
    by (simp add: deleteSession_eq)
  show "deleteSession sid (snd (deleteSession sid m)) = (True, snd (deleteSession sid m))"
    by (simp add: deleteSession_eq map_of_delete_self AList.delete_idem)
  assume "map_of (sessions m) sid = None \<and> pendingReconnects m sid = None \<and>
    retryAttempts m sid = None \<and> connectionPromises m sid = None \<and> sessionStates m sid = None"
  then show "deleteSession sid m = (True, m\<lparr>deletedSessions := insert sid (deletedSessions m)\<rparr>)"
    by (simp add: deleteSession_eq AList.delete_notin_dom map_of_eq_None_iff [symmetric]
        fun_upd_idem del: map_of_eq_None_iff)
qed

theorem deleteSession_idempotent_witness:
  "deleteSession ''42'' (new_manager example_store) =
     (True, (new_manager example_store)\<lparr>deletedSessions := {''42''}\<rparr>) \<and>
   deleteSession ''42'' (snd (deleteSession ''42'' (new_manager example_store))) =
     (True, (new_manager example_store)\<lparr>deletedSessions := {''42''}\<rparr>)"
proof -
  have clean: "map_of (sessions (new_manager example_store)) ''42'' = None \<and>
      pendingReconnects (new_manager example_store) ''42'' = None \<and>
      retryAttempts (new_manager example_store) ''42'' = None \<and>
      connectionPromises (new_manager example_store) ''42'' = None \<and>
      sessionStates (new_manager example_store) ''42'' = None"
    by (simp add: new_manager_def)
  note idem = deleteSession_idempotent [of "''42''" "new_manager example_store"]
  have first: "deleteSession ''42'' (new_manager example_store) =
     (True, (new_manager example_store)\<lparr>deletedSessions := {''42''}\<rparr>)"
  proof -
    have "deleteSession ''42'' (new_manager example_store) =
        (True, (new_manager example_store)
                 \<lparr>deletedSessions := insert ''42'' (deletedSessions (new_manager example_store))\<rparr>)"
      using clean by (rule idem [THEN conjunct2, THEN conjunct2, THEN mp])
    then show ?thesis by (simp add: new_manager_def)
  qed
  have "deleteSession ''42'' (snd (deleteSession ''42'' (new_manager example_store))) =
     (True, snd (deleteSession ''42'' (new_manager example_store)))"
    using idem [THEN conjunct2, THEN conjunct1] .
  then have second: "deleteSession ''42'' (snd (deleteSession ''42'' (new_manager example_store))) =
     (True, (new_manager example_store)\<lparr>deletedSessions := {''42''}\<rparr>)"
    by (simp only: first snd_conv)
  from first second show ?thesis by (rule conjI)
qed

section \<open>The restart scheduler\<close>

lemma backoffDelay_mono: "a \<le> b \<Longrightarrow> backoffDelay a \<le> backoffDelay b"
  unfolding backoffDelay_def by (intro min.mono mult_le_mono power_increasing) simp_all

lemma backoffDelay_cap: "backoffDelay n \<le> 30000"
  by (simp add: backoffDelay_def maxDelay_def)

lemma updateWhatsappStatus_row:
  assumes "reachable d" and "parseInt rt sid = Some k"
  shows "\<exists>d'. updateWhatsappStatus (parseInt rt sid) st None d = Inr d' \<and> reachable d' \<and>
           (\<forall>r. stored_row rt sid d' = Some r \<longrightarrow> row_status r = Some st)"
  using assms
  by (auto simp: updateWhatsappStatus_def query_update_def stored_row_def map_of_update_where)

lemma handleStreamRestart_schedules:
  assumes "(case retryAttempts m (cd_id cd) of None \<Rightarrow> 0 | Some n \<Rightarrow> n) = n"
    and "n < maxRetryAttempts"
  shows "handleStreamRestart rt cd m =
     m\<lparr>retryAttempts := (retryAttempts m)(cd_id cd \<mapsto> Suc n),
       timers := (timers m)(timersMade m \<mapsto> (backoffDelay n, cd)),
       timersMade := Suc (timersMade m),
       pendingReconnects := (pendingReconnects m)(cd_id cd \<mapsto> timersMade m)\<rparr>"
  using assms by (simp add: handleStreamRestart_def Let_def)

lemma handleStreamRestart_abandons:
  assumes "(case retryAttempts m (cd_id cd) of None \<Rightarrow> 0 | Some n \<Rightarrow> n) = n"
    and "maxRetryAttempts \<le> n"
  shows "handleStreamRestart rt cd m =
     m\<lparr>retryAttempts := (retryAttempts m)(cd_id cd := None),
       database := (case updateWhatsappStatus (parseInt rt (cd_id cd)) ''DISCONNECTED'' None (database m) of
                      Inl e \<Rightarrow> database m | Inr d \<Rightarrow> d)\<rparr>"
  using assms by (simp add: handleStreamRestart_def Let_def split: sum.splits)

text \<open>
  Claim C3, as amended. Let \<open>attemptCount\<close> be the stored retry count of the id plus
  one, and the cap on attempts be 5. While \<open>attemptCount\<close> is at most 5,
  \<^verbatim>\<open>handleStreamRestart\<close> arms a timer with delay
  \<open>min (2000 * 2 ^ (attemptCount - 1)) 30000\<close> milliseconds, which is at most 30000,
  stores it in \<open>pendingReconnects\<close> under the id and stores \<open>attemptCount\<close> as the new
  retry count; a following \<^verbatim>\<open>deleteSession\<close> disarms that timer and removes the entry,
  while a following \<^verbatim>\<open>disconnectSession\<close> leaves the timer armed. When \<open>attemptCount\<close>
  exceeds 5, no timer is armed, the retry count of the id is removed and, if the store
  answers, the stored status of the row is DISCONNECTED. The delay does not decrease as
  the attempt count grows.
\<close>

theorem handleStreamRestart_backoff:
  assumes count: "attemptCount = Suc (case retryAttempts m (cd_id cd) of None \<Rightarrow> 0 | Some n \<Rightarrow> n)"
  shows "maxRetryAttempts = 5 \<and>
    (attemptCount \<le> maxRetryAttempts \<longrightarrow>
       (let m' = handleStreamRestart rt cd m; t = timersMade m
        in timers m' t = Some (min (2000 * 2 ^ (attemptCount - 1)) 30000, cd) \<and>
           min (2000 * 2 ^ (attemptCount - 1)) 30000 \<le> (30000::nat) \<and>
           pendingReconnects m' (cd_id cd) = Some t \<and>
           retryAttempts m' (cd_id cd) = Some attemptCount \<and>
           timers (snd (deleteSession (cd_id cd) m')) t = None \<and>
           pendingReconnects (snd (deleteSession (cd_id cd) m')) (cd_id cd) = None \<and>
           timers (snd (disconnectSession rt (cd_id cd) logout m')) t = timers m' t)) \<and>
    (maxRetryAttempts < attemptCount \<longrightarrow>
       (let m' = handleStreamRestart rt cd m
        in timers m' = timers m \<and> timersMade m' = timersMade m \<and>
           pendingReconnects m' = pendingReconnects m \<and>
           retryAttempts m' (cd_id cd) = None \<and>
           (reachable (database m) \<and> parseInt rt (cd_id cd) \<noteq> None \<longrightarrow>
              (\<forall>r. stored_row rt (cd_id cd) (database m') = Some r \<longrightarrow>
                 row_status r = Some ''DISCONNECTED'')))) \<and>
    (\<forall>a b. 1 \<le> a \<and> a \<le> b \<longrightarrow>
       min (2000 * 2 ^ (a - 1)) 30000 \<le> (min (2000 * 2 ^ (b - 1)) 30000 :: nat))"
proof -
  define n where "n = (case retryAttempts m (cd_id cd) of None \<Rightarrow> 0 | Some n \<Rightarrow> n)"
  have n: "(case retryAttempts m (cd_id cd) of None \<Rightarrow> 0 | Some n \<Rightarrow> n) = n"
    and ac: "attemptCount = Suc n"
    using count by (simp_all add: n_def)
  have delay: "backoffDelay k = min (2000 * 2 ^ k) 30000" for k
    by (simp add: backoffDelay_def baseDelay_def maxDelay_def)
  have first: "maxRetryAttempts = 5"
    by (simp add: maxRetryAttempts_def)
  have sched: "attemptCount \<le> maxRetryAttempts \<longrightarrow>
       (let m' = handleStreamRestart rt cd m; t = timersMade m
        in timers m' t = Some (min (2000 * 2 ^ (attemptCount - 1)) 30000, cd) \<and>
           min (2000 * 2 ^ (attemptCount - 1)) 30000 \<le> (30000::nat) \<and>
           pendingReconnects m' (cd_id cd) = Some t \<and>
           retryAttempts m' (cd_id cd) = Some attemptCount \<and>
           timers (snd (deleteSession (cd_id cd) m')) t = None \<and>
           pendingReconnects (snd (deleteSession (cd_id cd) m')) (cd_id cd) = None \<and>
           timers (snd (disconnectSession rt (cd_id cd) logout m')) t = timers m' t)"
  proof
    assume "attemptCount \<le> maxRetryAttempts"
    then have "n < maxRetryAttempts" using ac by simp
    note eq = handleStreamRestart_schedules [OF n this, of rt]
    show "let m' = handleStreamRestart rt cd m; t = timersMade m
        in timers m' t = Some (min (2000 * 2 ^ (attemptCount - 1)) 30000, cd) \<and>
           min (2000 * 2 ^ (attemptCount - 1)) 30000 \<le> (30000::nat) \<and>
           pendingReconnects m' (cd_id cd) = Some t \<and>
           retryAttempts m' (cd_id cd) = Some attemptCount \<and>
           timers (snd (deleteSession (cd_id cd) m')) t = None \<and>
           pendingReconnects (snd (deleteSession (cd_id cd) m')) (cd_id cd) = None \<and>
           timers (snd (disconnectSession rt (cd_id cd) logout m')) t = timers m' t"
      unfolding Let_def eq
      by (simp add: ac delay deleteSession_eq disconnectSession_def modify_handle_def
          split: option.splits)
  qed
  have stop: "maxRetryAttempts < attemptCount \<longrightarrow>
       (let m' = handleStreamRestart rt cd m
        in timers m' = timers m \<and> timersMade m' = timersMade m \<and>
           pendingReconnects m' = pendingReconnects m \<and>
           retryAttempts m' (cd_id cd) = None \<and>
           (reachable (database m) \<and> parseInt rt (cd_id cd) \<noteq> None \<longrightarrow>
              (\<forall>r. stored_row rt (cd_id cd) (database m') = Some r \<longrightarrow>
                 row_status r = Some ''DISCONNECTED'')))"
  proof
    assume "maxRetryAttempts < attemptCount"
    then have "maxRetryAttempts \<le> n" using ac by simp
    note eq = handleStreamRestart_abandons [OF n this, of rt]
    have db: "reachable (database m) \<and> parseInt rt (cd_id cd) \<noteq> None \<longrightarrow>
        (\<forall>r. stored_row rt (cd_id cd)
               (case updateWhatsappStatus (parseInt rt (cd_id cd)) ''DISCONNECTED'' None (database m) of
                  Inl e \<Rightarrow> database m | Inr d \<Rightarrow> d) = Some r \<longrightarrow>
             row_status r = Some ''DISCONNECTED'')"
    proof (intro impI, elim conjE)
      assume re: "reachable (database m)" and "parseInt rt (cd_id cd) \<noteq> None"
      then obtain k where k: "parseInt rt (cd_id cd) = Some k" by auto
      from updateWhatsappStatus_row [OF re k, of "''DISCONNECTED''"] obtain d' where
        "updateWhatsappStatus (parseInt rt (cd_id cd)) ''DISCONNECTED'' None (database m) = Inr d'"
        "\<forall>r. stored_row rt (cd_id cd) d' = Some r \<longrightarrow> row_status r = Some ''DISCONNECTED''"
        by auto
      then show "\<forall>r. stored_row rt (cd_id cd)
               (case updateWhatsappStatus (parseInt rt (cd_id cd)) ''DISCONNECTED'' None (database m) of
                  Inl e \<Rightarrow> database m | Inr d \<Rightarrow> d) = Some r \<longrightarrow>
             row_status r = Some ''DISCONNECTED''"
        by simp
    qed
    show "let m' = handleStreamRestart rt cd m
        in timers m' = timers m \<and> timersMade m' = timersMade m \<and>
           pendingReconnects m' = pendingReconnects m \<and>
           retryAttempts m' (cd_id cd) = None \<and>
           (reachable (database m) \<and> parseInt rt (cd_id cd) \<noteq> None \<longrightarrow>
              (\<forall>r. stored_row rt (cd_id cd) (database m') = Some r \<longrightarrow>
                 row_status r = Some ''DISCONNECTED''))"
      unfolding Let_def eq using db by simp
  qed
  have mono: "\<forall>a b. 1 \<le> a \<and> a \<le> b \<longrightarrow>
       min (2000 * 2 ^ (a - 1)) 30000 \<le> (min (2000 * 2 ^ (b - 1)) 30000 :: nat)"
  proof (intro allI impI, elim conjE)
    fix a b :: nat
    assume "1 \<le> a" and "a \<le> b"
    then have "backoffDelay (a - 1) \<le> backoffDelay (b - 1)"
      by (intro backoffDelay_mono) simp
    then show "min (2000 * 2 ^ (a - 1)) 30000 \<le> (min (2000 * 2 ^ (b - 1)) 30000 :: nat)"
      by (simp only: delay)
  qed
  from first sched stop mono show ?thesis by (intro conjI)
qed

text \<open>An instance of each case: a first attempt, and a sixth.\<close>

theorem handleStreamRestart_backoff_witness:
  "(let m' = handleStreamRestart example_runtime example_connectionData (new_manager example_store)
    in timers m' 0 = Some (2000, example_connectionData) \<and>
       pendingReconnects m' ''42'' = Some 0 \<and> retryAttempts m' ''42'' = Some 1 \<and>
       timers (snd (deleteSession ''42'' m')) 0 = None \<and>
       timers (snd (disconnectSession example_runtime ''42'' None m')) 0 =
         Some (2000, example_connectionData)) \<and>
   (let m' = handleStreamRestart example_runtime example_connectionData
               ((new_manager example_store)\<lparr>retryAttempts := [''42'' \<mapsto> 5]\<rparr>)
    in timers m' 0 = None \<and> retryAttempts m' ''42'' = None \<and>
       map_option row_status (stored_row example_runtime ''42'' (database m')) =
         Some (Some ''DISCONNECTED''))"
proof -
  have one: "(1::nat) = Suc (case retryAttempts (new_manager example_store) (cd_id example_connectionData) of
                       None \<Rightarrow> 0 | Some n \<Rightarrow> n)"
    by (simp add: new_manager_def)
  have six: "(6::nat) = Suc (case retryAttempts ((new_manager example_store)\<lparr>retryAttempts := [''42'' \<mapsto> 5]\<rparr>)
                         (cd_id example_connectionData) of None \<Rightarrow> 0 | Some n \<Rightarrow> n)"
    by (simp add: example_connectionData_def)
  have row: "stored_row example_runtime ''42''
       (database (handleStreamRestart example_runtime example_connectionData
               ((new_manager example_store)\<lparr>retryAttempts := [''42'' \<mapsto> 5]\<rparr>))) \<noteq> None"
    by (simp add: manager_eval cong: let_weak_cong)
  have left: "let m' = handleStreamRestart example_runtime example_connectionData (new_manager example_store)
    in timers m' 0 = Some (2000, example_connectionData) \<and>
       pendingReconnects m' ''42'' = Some 0 \<and> retryAttempts m' ''42'' = Some 1 \<and>
       timers (snd (deleteSession ''42'' m')) 0 = None \<and>
       timers (snd (disconnectSession example_runtime ''42'' None m')) 0 =
         Some (2000, example_connectionData)"
    using handleStreamRestart_backoff [OF one, of example_runtime None]
    by (simp add: Let_def maxRetryAttempts_def new_manager_def example_connectionData_def)
  have right: "let m' = handleStreamRestart example_runtime example_connectionData
               ((new_manager example_store)\<lparr>retryAttempts := [''42'' \<mapsto> 5]\<rparr>)
    in timers m' 0 = None \<and> retryAttempts m' ''42'' = None \<and>
       map_option row_status (stored_row example_runtime ''42'' (database m')) =
         Some (Some ''DISCONNECTED'')"
    using handleStreamRestart_backoff [OF six, of example_runtime None] row
    by (auto simp: Let_def maxRetryAttempts_def new_manager_def example_connectionData_def
        example_store_def example_runtime_def)
  from left right show ?thesis by (rule conjI)
qed

text \<open>
  Claim C3 as stated fails where it says that a disconnect can cancel the timer. After a
  transient close has armed one, \<^verbatim>\<open>disconnectSession\<close> finds no registered session,
  returns \<^verbatim>\<open>false\<close> and leaves the timer armed and stored. After the connection was
  started again by hand and has opened, \<^verbatim>\<open>disconnectSession\<close> logs out and returns
  \<^verbatim>\<open>true\<close>, and the timer is still armed and stored.
\<close>

theorem disconnect_leaves_timer_armed:
  "(let m1 = snd (startConnection_begin example_runtime example_connectionData (SocketReturns None)
                   (new_manager example_store));
        m2 = on_connection_update example_runtime 0 (closed 428 ''Connection Closed'') m1;
        early = disconnectSession example_runtime ''42'' None m2;
        m3 = snd (the (startConnection_resume ''42'' Started 0 m2));
        m4 = snd (startConnection_begin example_runtime restored_connectionData
                   (SocketReturns (Some ''me'')) m3);
        m5 = on_connection_update example_runtime 1 opened m4;
        late = disconnectSession example_runtime ''42'' None m5
    in pendingReconnects m2 ''42'' = Some 0 \<and> timers m2 0 = Some (2000, example_connectionData) \<and>
       \<not> fst early \<and> pendingReconnects (snd early) ''42'' = Some 0 \<and>
       timers (snd early) 0 = Some (2000, example_connectionData) \<and>
       fst late \<and> map_option s_loggedOut (handles (snd late) 1) = Some True \<and>
       pendingReconnects (snd late) ''42'' = Some 0 \<and>
       timers (snd late) 0 = Some (2000, example_connectionData))"
  by (simp add: manager_eval cong: let_weak_cong)

section \<open>The connection listener\<close>

subsection \<open>Closing\<close>

lemma on_open_other: "connection upd \<noteq> Some ConnOpen \<Longrightarrow> on_open rt h upd m = m"
  by (simp add: on_open_def on_open_begin_def on_open_finish_def)

lemma on_pairing_other: "connection upd \<noteq> Some ConnOpen \<Longrightarrow> on_pairing rt h upd m = m"
  by (simp add: on_pairing_def)

lemma on_qr_none: "qr upd = None \<Longrightarrow> on_qr rt h upd m = m"
  by (simp add: on_qr_def)

lemma on_qr_frame:
  "timers (on_qr rt h upd m) = timers m"
  "timersMade (on_qr rt h upd m) = timersMade m"
  "pendingReconnects (on_qr rt h upd m) = pendingReconnects m"
  "retryAttempts (on_qr rt h upd m) = retryAttempts m"
  "promises (on_qr rt h upd m) = promises m"
  "connectionPromises (on_qr rt h upd m) = connectionPromises m"
  "transportOpens (on_qr rt h upd m) = transportOpens m"
  by (simp_all add: on_qr_def Let_def emit_def modify_handle_def split: option.splits)

lemma on_qr_emitted: "set (emitted m) \<subseteq> set (emitted (on_qr rt h upd m))"
  by (auto simp: on_qr_def Let_def emit_def modify_handle_def split: option.splits)

lemma handleStreamRestart_frame:
  "emitted (handleStreamRestart rt cd m) = emitted m"
  "promises (handleStreamRestart rt cd m) = promises m"
  "handles (handleStreamRestart rt cd m) = handles m"
  "sessions (handleStreamRestart rt cd m) = sessions m"
  "connectionPromises (handleStreamRestart rt cd m) = connectionPromises m"
  "transportOpens (handleStreamRestart rt cd m) = transportOpens m"
  by (simp_all add: handleStreamRestart_def Let_def split: sum.splits)

lemma handleStreamRestart_registry:
  "handleStreamRestart rt cd (m\<lparr>sessions := x\<rparr>) = (handleStreamRestart rt cd m)\<lparr>sessions := x\<rparr>"
  "handleStreamRestart rt cd (m\<lparr>handles := y\<rparr>) = (handleStreamRestart rt cd m)\<lparr>handles := y\<rparr>"
  by (simp_all add: handleStreamRestart_def Let_def split: sum.splits)

lemma closing_frame:
  "timers (closing h sid m) = timers m"
  "timersMade (closing h sid m) = timersMade m"
  "pendingReconnects (closing h sid m) = pendingReconnects m"
  "retryAttempts (closing h sid m) = retryAttempts m"
  "promises (closing h sid m) = promises m"
  "emitted (closing h sid m) = emitted m"
  "database (closing h sid m) = database m"
  by (simp_all add: closing_def removeSession_def modify_handle_def)

lemma closing_restart:
  "handleStreamRestart rt cd (closing h sid m) =
     (handleStreamRestart rt cd m)\<lparr>handles := handles (closing h sid m),
                                   sessions := sessions (closing h sid m)\<rparr>"
  by (simp add: closing_def removeSession_def modify_handle_def handleStreamRestart_registry)

lemma close_terminal:
  assumes "handles m h = Some s" and "s_listening s" and "connection upd = Some ConnClose"
    and "terminal upd"
    and "updateWhatsappStatus (parseInt rt (s_id s)) ''DISCONNECTED'' None (database m) = Inr d"
  shows "on_connection_update rt h upd m =
     reject (s_promise s) (Error (''Connection closed for '' @ s_id s))
       (emit (connectionUpdate
                \<lparr>cu_whatsappId = s_id s, cu_status = DISCONNECTED, cu_qrCode = None,
                 cu_error = Some (''Connection closed for '' @ s_id s)\<rparr>)
          ((closing h (s_id s) m)\<lparr>database := d\<rparr>))"
  using assms
  by (simp add: on_connection_update_def on_pairing_other on_close_def Let_def closing_def
      removeSession_def modify_handle_def)

lemma close_terminal_throws:
  assumes "handles m h = Some s" and "s_listening s" and "connection upd = Some ConnClose"
    and "terminal upd"
    and "updateWhatsappStatus (parseInt rt (s_id s)) ''DISCONNECTED'' None (database m) = Inl e"
  shows "on_connection_update rt h upd m = closing h (s_id s) m"
  using assms
  by (simp add: on_connection_update_def on_pairing_other on_close_def Let_def closing_def
      removeSession_def modify_handle_def)

lemma updateWhatsappStatus_throws:
  assumes "\<not> reachable d \<or> k = None"
  shows "\<exists>e. updateWhatsappStatus k st q d = Inl e"
  using assms
  by (auto simp: updateWhatsappStatus_def query_update_def split: option.splits)

lemma close_transient:
  assumes "handles m h = Some s" and "s_listening s" and "connection upd = Some ConnClose"
    and "\<not> terminal upd"
  shows "on_connection_update rt h upd m =
     on_qr rt h upd
       (reject (s_promise s) (Error (''Connection closed for '' @ s_id s))
          (emit (connectionUpdate
                   \<lparr>cu_whatsappId = s_id s, cu_status = DISCONNECTED, cu_qrCode = None,
                    cu_error = errorMessage upd\<rparr>)
             (handleStreamRestart rt (s_connectionData s) (closing h (s_id s) m))))"
  using assms
  by (simp add: on_connection_update_def on_pairing_other on_close_def Let_def closing_def
      removeSession_def modify_handle_def on_open_other)

lemma reject_frame:
  "timers (reject p e m) = timers m"
  "timersMade (reject p e m) = timersMade m"
  "pendingReconnects (reject p e m) = pendingReconnects m"
  "retryAttempts (reject p e m) = retryAttempts m"
  "emitted (reject p e m) = emitted m"
  "database (reject p e m) = database m"
  by (simp_all add: reject_def)

lemma reject_pending: "promises m p = Some Pending \<Longrightarrow> promises (reject p e m) p = Some (Rejected e)"
  by (simp add: reject_def)

lemma emit_frame:
  "timers (emit ev m) = timers m"
  "timersMade (emit ev m) = timersMade m"
  "pendingReconnects (emit ev m) = pendingReconnects m"
  "retryAttempts (emit ev m) = retryAttempts m"
  "promises (emit ev m) = promises m"
  "database (emit ev m) = database m"
  "emitted (emit ev m) = emitted m @ [ev]"
  by (simp_all add: emit_def)

text \<open>
  Claim C4. Take a \<^verbatim>\<open>close\<close> event on a socket whose listeners are attached, and call
  the reason terminal if the status code is 401 or 403, or it is 408 with the message
  "QR refs attempts ended".

  \<^item> Terminal, and the store answers: the stored status of the row becomes DISCONNECTED,
    exactly one event is emitted, a disconnect with the error text "Connection closed for
    <id>", a pending promise of the attempt is rejected with that text, and no timer,
    pending-reconnect entry or retry count changes.

  \<^item> Terminal, and the store call throws (the store is unreachable, or the id is no
    number): the \<^verbatim>\<open>await\<close> of \<^verbatim>\<open>updateWhatsappStatus\<close> stands outside any \<^verbatim>\<open>try\<close>, so the
    listener ends there. Nothing is emitted, no promise is settled, the store is as it
    was, and nothing is scheduled: the attempt stays pending.

  \<^item> Every other reason: the timers, the pending-reconnect map and the retry counts become
    what \<^verbatim>\<open>handleStreamRestart\<close> makes of them, so below the retry cap a timer with the
    backoff delay is armed and stored under the id; the disconnect event, carrying the
    reason's message, is emitted and a pending promise is rejected.
\<close>

theorem close_is_classified:
  assumes h: "handles m h = Some s" and l: "s_listening s" and c: "connection upd = Some ConnClose"
  shows
    "((statusCode upd = Some 401 \<or> statusCode upd = Some 403 \<or>
       (statusCode upd = Some 408 \<and> errorMessage upd = Some ''QR refs attempts ended'')) \<and>
      reachable (database m) \<and> parseInt rt (s_id s) \<noteq> None \<longrightarrow>
        (let m' = on_connection_update rt h upd m
         in (\<forall>r. stored_row rt (s_id s) (database m') = Some r \<longrightarrow>
                row_status r = Some ''DISCONNECTED'') \<and>
            emitted m' = emitted m @
              [connectionUpdate
                 \<lparr>cu_whatsappId = s_id s, cu_status = DISCONNECTED, cu_qrCode = None,
                  cu_error = Some (''Connection closed for '' @ s_id s)\<rparr>] \<and>
            (promises m (s_promise s) = Some Pending \<longrightarrow>
               promises m' (s_promise s) =
                 Some (Rejected (Error (''Connection closed for '' @ s_id s)))) \<and>
            timers m' = timers m \<and> pendingReconnects m' = pendingReconnects m \<and>
            retryAttempts m' = retryAttempts m)) \<and>
     ((statusCode upd = Some 401 \<or> statusCode upd = Some 403 \<or>
       (statusCode upd = Some 408 \<and> errorMessage upd = Some ''QR refs attempts ended'')) \<and>
      (\<not> reachable (database m) \<or> parseInt rt (s_id s) = None) \<longrightarrow>
        (let m' = on_connection_update rt h upd m
         in emitted m' = emitted m \<and> promises m' = promises m \<and> database m' = database m \<and>
            timers m' = timers m \<and> pendingReconnects m' = pendingReconnects m \<and>
            retryAttempts m' = retryAttempts m)) \<and>
     (\<not> (statusCode upd = Some 401 \<or> statusCode upd = Some 403 \<or>
         (statusCode upd = Some 408 \<and> errorMessage upd = Some ''QR refs attempts ended'')) \<longrightarrow>
        (let m' = on_connection_update rt h upd m;
             scheduled = handleStreamRestart rt (s_connectionData s) m
         in timers m' = timers scheduled \<and> pendingReconnects m' = pendingReconnects scheduled \<and>
            retryAttempts m' = retryAttempts scheduled \<and>
            (\<forall>n. (case retryAttempts m (cd_id (s_connectionData s)) of None \<Rightarrow> 0 | Some n \<Rightarrow> n) = n \<and>
                 n < maxRetryAttempts \<longrightarrow>
                 timers m' (timersMade m) = Some (backoffDelay n, s_connectionData s) \<and>
                 pendingReconnects m' (cd_id (s_connectionData s)) = Some (timersMade m)) \<and>
            connectionUpdate
              \<lparr>cu_whatsappId = s_id s, cu_status = DISCONNECTED, cu_qrCode = None,
               cu_error = errorMessage upd\<rparr> \<in> set (emitted m') \<and>
            (promises m (s_promise s) = Some Pending \<longrightarrow>
               promises m' (s_promise s) =
                 Some (Rejected (Error (''Connection closed for '' @ s_id s))))))"
proof (intro conjI impI)
  assume "(statusCode upd = Some 401 \<or> statusCode upd = Some 403 \<or>
       (statusCode upd = Some 408 \<and> errorMessage upd = Some ''QR refs attempts ended'')) \<and>
      reachable (database m) \<and> parseInt rt (s_id s) \<noteq> None"
  then have t: "terminal upd" and re: "reachable (database m)"
    and "parseInt rt (s_id s) \<noteq> None"
    by (simp_all add: terminal_def)
  then obtain k where k: "parseInt rt (s_id s) = Some k" by auto
  from updateWhatsappStatus_row [OF re k, of "''DISCONNECTED''"] obtain d where
    d: "updateWhatsappStatus (parseInt rt (s_id s)) ''DISCONNECTED'' None (database m) = Inr d"
    and row: "\<forall>r. stored_row rt (s_id s) d = Some r \<longrightarrow> row_status r = Some ''DISCONNECTED''"
    by auto
  note eq = close_terminal [OF h l c t d]
  show "let m' = on_connection_update rt h upd m
         in (\<forall>r. stored_row rt (s_id s) (database m') = Some r \<longrightarrow>
                row_status r = Some ''DISCONNECTED'') \<and>
            emitted m' = emitted m @
              [connectionUpdate
                 \<lparr>cu_whatsappId = s_id s, cu_status = DISCONNECTED, cu_qrCode = None,
                  cu_error = Some (''Connection closed for '' @ s_id s)\<rparr>] \<and>
            (promises m (s_promise s) = Some Pending \<longrightarrow>
               promises m' (s_promise s) =
                 Some (Rejected (Error (''Connection closed for '' @ s_id s)))) \<and>
            timers m' = timers m \<and> pendingReconnects m' = pendingReconnects m \<and>
            retryAttempts m' = retryAttempts m"
    unfolding Let_def eq using row
    by (simp add: reject_frame emit_frame closing_frame reject_pending)
next
  assume a: "(statusCode upd = Some 401 \<or> statusCode upd = Some 403 \<or>
       (statusCode upd = Some 408 \<and> errorMessage upd = Some ''QR refs attempts ended'')) \<and>
      (\<not> reachable (database m) \<or> parseInt rt (s_id s) = None)"
  then have t: "terminal upd" by (simp add: terminal_def)
  from a have "\<not> reachable (database m) \<or> parseInt rt (s_id s) = None" by simp
  from updateWhatsappStatus_throws [OF this] obtain e where
    e: "updateWhatsappStatus (parseInt rt (s_id s)) ''DISCONNECTED'' None (database m) = Inl e"
    by blast
  note eq = close_terminal_throws [OF h l c t e]
  show "let m' = on_connection_update rt h upd m
         in emitted m' = emitted m \<and> promises m' = promises m \<and> database m' = database m \<and>
            timers m' = timers m \<and> pendingReconnects m' = pendingReconnects m \<and>
            retryAttempts m' = retryAttempts m"
    unfolding Let_def eq by (simp add: closing_frame)
next
  assume "\<not> (statusCode upd = Some 401 \<or> statusCode upd = Some 403 \<or>
         (statusCode upd = Some 408 \<and> errorMessage upd = Some ''QR refs attempts ended''))"
  then have t: "\<not> terminal upd" by (simp add: terminal_def)
  note eq = close_transient [OF h l c t]
  have ev: "connectionUpdate
              \<lparr>cu_whatsappId = s_id s, cu_status = DISCONNECTED, cu_qrCode = None,
               cu_error = errorMessage upd\<rparr> \<in> set (emitted (on_connection_update rt h upd m))"
    unfolding eq
    by (rule subsetD [OF on_qr_emitted]) (simp add: reject_frame emit_frame)
  have sched: "\<forall>n. (case retryAttempts m (cd_id (s_connectionData s)) of None \<Rightarrow> 0 | Some n \<Rightarrow> n) = n \<and>
                 n < maxRetryAttempts \<longrightarrow>
                 timers (handleStreamRestart rt (s_connectionData s) m) (timersMade m) =
                   Some (backoffDelay n, s_connectionData s) \<and>
                 pendingReconnects (handleStreamRestart rt (s_connectionData s) m)
                   (cd_id (s_connectionData s)) = Some (timersMade m)"
  proof (intro allI impI, elim conjE)
    fix n
    assume n: "(case retryAttempts m (cd_id (s_connectionData s)) of None \<Rightarrow> 0 | Some n \<Rightarrow> n) = n"
      and less: "n < maxRetryAttempts"
    show "timers (handleStreamRestart rt (s_connectionData s) m) (timersMade m) =
                   Some (backoffDelay n, s_connectionData s) \<and>
                 pendingReconnects (handleStreamRestart rt (s_connectionData s) m)
                   (cd_id (s_connectionData s)) = Some (timersMade m)"
      unfolding handleStreamRestart_schedules [OF n less] by simp
  qed
  show "let m' = on_connection_update rt h upd m;
             scheduled = handleStreamRestart rt (s_connectionData s) m
         in timers m' = timers scheduled \<and> pendingReconnects m' = pendingReconnects scheduled \<and>
            retryAttempts m' = retryAttempts scheduled \<and>
            (\<forall>n. (case retryAttempts m (cd_id (s_connectionData s)) of None \<Rightarrow> 0 | Some n \<Rightarrow> n) = n \<and>
                 n < maxRetryAttempts \<longrightarrow>
                 timers m' (timersMade m) = Some (backoffDelay n, s_connectionData s) \<and>
                 pendingReconnects m' (cd_id (s_connectionData s)) = Some (timersMade m)) \<and>
            connectionUpdate
              \<lparr>cu_whatsappId = s_id s, cu_status = DISCONNECTED, cu_qrCode = None,
               cu_error = errorMessage upd\<rparr> \<in> set (emitted m') \<and>
            (promises m (s_promise s) = Some Pending \<longrightarrow>
               promises m' (s_promise s) =
                 Some (Rejected (Error (''Connection closed for '' @ s_id s))))"
    unfolding Let_def using ev sched unfolding eq
    by (simp add: on_qr_frame reject_frame emit_frame closing_restart reject_pending
        handleStreamRestart_frame closing_frame)
qed

text \<open>
  An instance of each case, on a socket that was just made: code 401 with the store
  answering, code 401 after the store has gone away, and code 428.
\<close>

theorem close_is_classified_witness:
  "(let m = snd (startConnection_begin example_runtime example_connectionData (SocketReturns None)
                  (new_manager example_store));
        m' = on_connection_update example_runtime 0 (closed 401 ''Unauthorized'') m
    in map_option row_status (stored_row example_runtime ''42'' (database m')) =
         Some (Some ''DISCONNECTED'') \<and>
       emitted m' =
         [connectionUpdate \<lparr>cu_whatsappId = ''42'', cu_status = DISCONNECTED, cu_qrCode = None,
                            cu_error = Some ''Connection closed for 42''\<rparr>] \<and>
       promises m' 0 = Some (Rejected (Error ''Connection closed for 42'')) \<and>
       timers m' = Map.empty \<and> pendingReconnects m' = Map.empty) \<and>
   (let m = snd (startConnection_begin example_runtime example_connectionData (SocketReturns None)
                  (new_manager (example_store\<lparr>reachable := False\<rparr>)));
        m' = on_connection_update example_runtime 0 (closed 401 ''Unauthorized'') m
    in emitted m' = [] \<and> promises m' 0 = Some Pending \<and> timers m' = Map.empty) \<and>
   (let m = snd (startConnection_begin example_runtime example_connectionData (SocketReturns None)
                  (new_manager example_store));
        m' = on_connection_update example_runtime 0 (closed 428 ''Connection Closed'') m
    in timers m' 0 = Some (2000, example_connectionData) \<and>
       pendingReconnects m' ''42'' = Some 0 \<and>
       connectionUpdate \<lparr>cu_whatsappId = ''42'', cu_status = DISCONNECTED, cu_qrCode = None,
                         cu_error = Some ''Connection Closed''\<rparr> \<in> set (emitted m') \<and>
       promises m' 0 = Some (Rejected (Error ''Connection closed for 42'')))"
proof -
  define m where "m = snd (startConnection_begin example_runtime example_connectionData
                             (SocketReturns None) (new_manager example_store))"
  define s where "s = the (handles m 0)"
  have h: "handles m 0 = Some s" and l: "s_listening s"
    and f: "s_id s = ''42''" "s_promise s = 0" "s_connectionData s = example_connectionData"
    and st: "reachable (database m)" "parseInt example_runtime ''42'' \<noteq> None"
      "promises m 0 = Some Pending" "emitted m = []" "timers m = Map.empty"
      "pendingReconnects m = Map.empty" "timersMade m = 0"
      "(case retryAttempts m ''42'' of None \<Rightarrow> 0 | Some n \<Rightarrow> n) = 0"
    unfolding s_def m_def by (simp_all add: manager_eval cong: let_weak_cong)
  have c1: "connection (closed 401 ''Unauthorized'') = Some ConnClose"
    and t1: "statusCode (closed 401 ''Unauthorized'') = Some 401"
    and c2: "connection (closed 428 ''Connection Closed'') = Some ConnClose"
    and t2: "\<not> (statusCode (closed 428 ''Connection Closed'') = Some 401 \<or>
               statusCode (closed 428 ''Connection Closed'') = Some 403 \<or>
               (statusCode (closed 428 ''Connection Closed'') = Some 408 \<and>
                errorMessage (closed 428 ''Connection Closed'') = Some ''QR refs attempts ended''))"
    and e2: "errorMessage (closed 428 ''Connection Closed'') = Some ''Connection Closed''"
    by (simp_all add: closed_def)
  define a where "a = on_connection_update example_runtime 0 (closed 401 ''Unauthorized'') m"
  define b where "b = on_connection_update example_runtime 0 (closed 428 ''Connection Closed'') m"
  have row: "stored_row example_runtime ''42'' (database a) \<noteq> None"
    unfolding a_def m_def by (simp add: manager_eval cong: let_weak_cong)
  have "(\<forall>r. stored_row example_runtime (s_id s) (database a) = Some r \<longrightarrow>
                row_status r = Some ''DISCONNECTED'') \<and>
            emitted a = emitted m @
              [connectionUpdate
                 \<lparr>cu_whatsappId = s_id s, cu_status = DISCONNECTED, cu_qrCode = None,
                  cu_error = Some (''Connection closed for '' @ s_id s)\<rparr>] \<and>
            (promises m (s_promise s) = Some Pending \<longrightarrow>
               promises a (s_promise s) =
                 Some (Rejected (Error (''Connection closed for '' @ s_id s)))) \<and>
            timers a = timers m \<and> pendingReconnects a = pendingReconnects m \<and>
            retryAttempts a = retryAttempts m"
    using close_is_classified [OF h l c1, of example_runtime, THEN conjunct1, THEN mp,
        unfolded Let_def a_def [symmetric]] t1 st f
    by simp
  then have left: "map_option row_status (stored_row example_runtime ''42'' (database a)) =
         Some (Some ''DISCONNECTED'') \<and>
       emitted a =
         [connectionUpdate \<lparr>cu_whatsappId = ''42'', cu_status = DISCONNECTED, cu_qrCode = None,
                            cu_error = Some ''Connection closed for 42''\<rparr>] \<and>
       promises a 0 = Some (Rejected (Error ''Connection closed for 42'')) \<and>
       timers a = Map.empty \<and> pendingReconnects a = Map.empty"
    using row st f by (cases "stored_row example_runtime ''42'' (database a)") simp_all
  define n where "n = snd (startConnection_begin example_runtime example_connectionData
                             (SocketReturns None) (new_manager (example_store\<lparr>reachable := False\<rparr>)))"
  define sn where "sn = the (handles n 0)"
  define d where "d = on_connection_update example_runtime 0 (closed 401 ''Unauthorized'') n"
  have hn: "handles n 0 = Some sn" and ln: "s_listening sn"
    and down: "(statusCode (closed 401 ''Unauthorized'') = Some 401 \<or>
         statusCode (closed 401 ''Unauthorized'') = Some 403 \<or>
         (statusCode (closed 401 ''Unauthorized'') = Some 408 \<and>
          errorMessage (closed 401 ''Unauthorized'') = Some ''QR refs attempts ended'')) \<and>
        (\<not> reachable (database n) \<or> parseInt example_runtime (s_id sn) = None)"
    and sn: "promises n 0 = Some Pending" "emitted n = []" "timers n = Map.empty"
    unfolding sn_def n_def by (simp_all add: manager_eval closed_def cong: let_weak_cong)
  have "emitted d = emitted n \<and> promises d = promises n \<and> database d = database n \<and>
            timers d = timers n \<and> pendingReconnects d = pendingReconnects n \<and>
            retryAttempts d = retryAttempts n"
    by (rule close_is_classified [OF hn ln c1, of example_runtime, THEN conjunct2, THEN conjunct1,
        THEN mp, OF down, unfolded Let_def d_def [symmetric]])
  then have middle: "emitted d = [] \<and> promises d 0 = Some Pending \<and> timers d = Map.empty"
    using sn by simp
  note R = close_is_classified [OF h l c2, of example_runtime, THEN conjunct2, THEN conjunct2,
        THEN mp, OF t2,
        unfolded Let_def b_def [symmetric], THEN conjunct2, THEN conjunct2, THEN conjunct2]
  have r1: "timers b 0 = Some (2000, example_connectionData) \<and> pendingReconnects b ''42'' = Some 0"
    using R [THEN conjunct1, rule_format, of 0] st f
    by (simp add: example_connectionData_def maxRetryAttempts_def backoffDelay_def baseDelay_def
        maxDelay_def)
  have r2: "connectionUpdate \<lparr>cu_whatsappId = ''42'', cu_status = DISCONNECTED, cu_qrCode = None,
                         cu_error = Some ''Connection Closed''\<rparr> \<in> set (emitted b)"
    using R [THEN conjunct2, THEN conjunct1] f e2 by simp
  have r3: "promises b 0 = Some (Rejected (Error ''Connection closed for 42''))"
    using R [THEN conjunct2, THEN conjunct2] st f by simp
  from r1 r2 r3 have right: "timers b 0 = Some (2000, example_connectionData) \<and>
       pendingReconnects b ''42'' = Some 0 \<and>
       connectionUpdate \<lparr>cu_whatsappId = ''42'', cu_status = DISCONNECTED, cu_qrCode = None,
                         cu_error = Some ''Connection Closed''\<rparr> \<in> set (emitted b) \<and>
       promises b 0 = Some (Rejected (Error ''Connection closed for 42''))"
    by simp
  from left middle right show ?thesis
    unfolding Let_def a_def b_def d_def m_def n_def by (rule conjI [OF _ conjI])
qed

text \<open>
  Claim C4 at a terminal close that finds the store gone: the transport reports 401,
  nothing is emitted, and the attempt is neither rejected nor resolved, so the caller of
  \<^verbatim>\<open>startConnection\<close> has no result and the entry for the id stays in
  \<open>connectionPromises\<close>.
\<close>

theorem terminal_close_leaves_attempt_pending:
  "(let m = snd (startConnection_begin example_runtime example_connectionData (SocketReturns None)
                  (new_manager (example_store\<lparr>reachable := False\<rparr>)));
        m' = on_connection_update example_runtime 0 (closed 401 ''Unauthorized'') m
    in emitted m' = [] \<and> promises m' 0 = Some Pending \<and>
       connectionPromises m' ''42'' = Some 0 \<and>
       startConnection_resume ''42'' Started 0 m' = None \<and>
       map_option row_status (stored_row example_runtime ''42'' (database m')) =
         Some (Some ''CONNECTING''))"
  by (simp add: manager_eval cong: let_weak_cong)

subsection \<open>Opening\<close>

lemma query_update_reachable:
  "query_update k f d = Inr d' \<Longrightarrow> reachable d' = reachable d"
  by (auto simp: query_update_def split: if_splits option.splits)

lemma updateWhatsappSession_reachable:
  "updateWhatsappSession k b d = Inr d' \<Longrightarrow> reachable d' = reachable d"
  by (simp add: updateWhatsappSession_def query_update_reachable)

lemma write_settles_reachable:
  "write_settles rt sid s = Some s' \<Longrightarrow> reachable (db s') = reachable (db s)"
  by (auto simp: write_settles_def saveState_def Let_def updateWhatsappSession_reachable
      split: list.splits sum.splits if_splits)

lemma enhancedSaveState_reachable:
  "reachable (snd (enhancedSaveState rt sid a d)) = reachable d"
proof -
  have s1: "reachable (db (saveState rt (creds a) \<lparr>closure = a, db = d, in_flight = [], writes_started = 0\<rparr>)) = reachable d"
    by (simp add: saveState_def Let_def)
  show ?thesis
    unfolding enhancedSaveState_def Let_def
    using s1 by (auto split: option.splits dest!: write_settles_reachable)
qed

lemma save_and_export_eq:
  assumes "handles m h = Some s"
  shows "save_and_export rt h m =
     m\<lparr>handles := (handles m)(h \<mapsto> paired rt s (database m)),
       database := snd (enhancedSaveState rt (s_id s) (s_auth s) (database m))\<rparr>"
  using assms
  by (simp add: save_and_export_def paired_def Let_def modify_handle_def split: prod.splits)

lemma paired_fields:
  "s_id (paired rt s d) = s_id s"
  "s_status (paired rt s d) = s_status s"
  "s_qrCode (paired rt s d) = s_qrCode s"
  "s_user (paired rt s d) = s_user s"
  "s_promise (paired rt s d) = s_promise s"
  "s_listening (paired rt s d) = s_listening s"
  by (simp_all add: paired_def Let_def split: prod.splits)

lemma on_pairing_cases:
  assumes "handles m h = Some s"
  shows "\<exists>s0 d0. on_pairing rt h upd m = m\<lparr>handles := (handles m)(h \<mapsto> s0), database := d0\<rparr> \<and>
           reachable d0 = reachable (database m) \<and>
           s_id s0 = s_id s \<and> s_status s0 = s_status s \<and> s_qrCode s0 = s_qrCode s \<and>
           s_user s0 = s_user s \<and> s_promise s0 = s_promise s \<and> s_listening s0 = s_listening s"
proof (cases "isNewLogin upd \<and> connection upd = Some ConnOpen")
  case True
  then have "on_pairing rt h upd m =
     m\<lparr>handles := (handles m)(h \<mapsto> paired rt s (database m)),
       database := snd (enhancedSaveState rt (s_id s) (s_auth s) (database m))\<rparr>"
    using save_and_export_eq [OF assms] by (simp add: on_pairing_def)
  then show ?thesis
    using paired_fields [of rt s "database m"] enhancedSaveState_reachable [of rt "s_id s" "s_auth s" "database m"]
    by blast
next
  case False
  then have "on_pairing rt h upd m = m"
    by (auto simp: on_pairing_def)
  then have "on_pairing rt h upd m = m\<lparr>handles := (handles m)(h \<mapsto> s), database := database m\<rparr>"
    using assms by (simp add: fun_upd_idem)
  then show ?thesis by blast
qed


lemma open_store_writes_row:
  assumes "reachable d" and "parseInt rt sid = Some k"
  shows "\<forall>r. stored_row rt sid (open_store_writes rt sid d) = Some r \<longrightarrow>
           row_status r = Some ''CONNECTED'' \<and> row_qrcode r = None"
  using assms
  by (auto simp: open_store_writes_def updateWhatsappStatus_def clearWhatsappQRCode_def
      query_update_def stored_row_def map_of_update_where)

lemma resolve_frame:
  "timers (resolve p h m) = timers m"
  "pendingReconnects (resolve p h m) = pendingReconnects m"
  "retryAttempts (resolve p h m) = retryAttempts m"
  "emitted (resolve p h m) = emitted m"
  "database (resolve p h m) = database m"
  "handles (resolve p h m) = handles m"
  "sessions (resolve p h m) = sessions m"
  "connectionPromises (resolve p h m) = connectionPromises m"
  "transportOpens (resolve p h m) = transportOpens m"
  by (simp_all add: resolve_def)

lemma resolve_pending: "promises m p = Some Pending \<Longrightarrow> promises (resolve p h m) p = Some (Resolved h)"
  by (simp add: resolve_def)

lemma map_of_update_self: "map_of (AList.update k v al) k = Some v"
  by (simp add: AList.update_conv')

lemma open_normal_form:
  assumes h: "handles m h = Some s" and l: "s_listening s" and c: "connection upd = Some ConnOpen"
    and q: "qr upd = None"
  shows "\<exists>s0 d0. reachable d0 = reachable (database m) \<and> s_id s0 = s_id s \<and>
           s_qrCode s0 = s_qrCode s \<and> s_user s0 = s_user s \<and>
           on_connection_update rt h upd m =
             resolve (s_promise s) h
               (emit (connectionUpdate
                        \<lparr>cu_whatsappId = s_id s, cu_status = CONNECTED, cu_qrCode = None,
                         cu_error = None\<rparr>)
                  (m\<lparr>handles := (handles m)(h \<mapsto> s0\<lparr>s_status := CONNECTED\<rparr>),
                     sessions := AList.update (s_id s) h (sessions m),
                     database := open_store_writes rt (s_id s) d0\<rparr>))"
proof -
  from on_pairing_cases [OF h, of rt upd] obtain s0 d0 where
    p: "on_pairing rt h upd m = m\<lparr>handles := (handles m)(h \<mapsto> s0), database := d0\<rparr>"
    and re: "reachable d0 = reachable (database m)"
    and f: "s_id s0 = s_id s" "s_qrCode s0 = s_qrCode s" "s_user s0 = s_user s"
      "s_promise s0 = s_promise s"
    by blast
  have "on_connection_update rt h upd m =
             resolve (s_promise s) h
               (emit (connectionUpdate
                        \<lparr>cu_whatsappId = s_id s, cu_status = CONNECTED, cu_qrCode = None,
                         cu_error = None\<rparr>)
                  (m\<lparr>handles := (handles m)(h \<mapsto> s0\<lparr>s_status := CONNECTED\<rparr>),
                     sessions := AList.update (s_id s) h (sessions m),
                     database := open_store_writes rt (s_id s) d0\<rparr>))"
    using h l c q f
    by (simp add: on_connection_update_def p on_close_def on_open_def on_open_begin_def
        on_open_finish_def on_qr_none Let_def modify_handle_def)
  with re f show ?thesis by blast
qed

lemma resume_resolved:
  assumes "promises m p = Some (Resolved h)" and "handles m h = Some s"
  shows "\<exists>r mm. startConnection_resume sid kind p m = Some (r, mm) \<and> success r \<and>
           qrCode r = s_qrCode s"
  using assms by (simp add: startConnection_resume_def Let_def)


lemma open_listener:
  assumes h: "handles m h = Some s" and l: "s_listening s" and c: "connection upd = Some ConnOpen"
    and q: "qr upd = None"
  shows "(let m' = on_connection_update rt h upd m
          in (\<exists>s'. session_of m' (s_id s) = Some s' \<and> handles m' h = Some s' \<and>
                   s_status s' = CONNECTED \<and> s_qrCode s' = s_qrCode s) \<and>
             map_of (sessions m') (s_id s) = Some h \<and>
             retryAttempts m' = retryAttempts m \<and>
             emitted m' = emitted m @
               [connectionUpdate \<lparr>cu_whatsappId = s_id s, cu_status = CONNECTED,
                                  cu_qrCode = None, cu_error = None\<rparr>] \<and>
             (promises m (s_promise s) = Some Pending \<longrightarrow>
                promises m' (s_promise s) = Some (Resolved h) \<and>
                (\<forall>kind. \<exists>r mm. startConnection_resume (s_id s) kind (s_promise s) m' = Some (r, mm) \<and>
                           success r \<and> qrCode r = s_qrCode s)) \<and>
             (reachable (database m) \<and> parseInt rt (s_id s) \<noteq> None \<longrightarrow>
                (\<forall>r. stored_row rt (s_id s) (database m') = Some r \<longrightarrow>
                   row_status r = Some ''CONNECTED'' \<and> row_qrcode r = None)) \<and>
             (\<forall>result. success result \<longrightarrow>
                retryAttempts (restart_resume (s_id s) result m') (s_id s) = None))"
proof -
  from open_normal_form [OF h l c q, of rt] obtain s0 d0 where
    re: "reachable d0 = reachable (database m)" and id: "s_id s0 = s_id s"
    and qc: "s_qrCode s0 = s_qrCode s"
    and eq: "on_connection_update rt h upd m =
             resolve (s_promise s) h
               (emit (connectionUpdate
                        \<lparr>cu_whatsappId = s_id s, cu_status = CONNECTED, cu_qrCode = None,
                         cu_error = None\<rparr>)
                  (m\<lparr>handles := (handles m)(h \<mapsto> s0\<lparr>s_status := CONNECTED\<rparr>),
                     sessions := AList.update (s_id s) h (sessions m),
                     database := open_store_writes rt (s_id s) d0\<rparr>))"
    by blast
  define m' where "m' = on_connection_update rt h upd m"
  have hs: "handles m' h = Some (s0\<lparr>s_status := CONNECTED\<rparr>)"
    and reg: "map_of (sessions m') (s_id s) = Some h"
    and ra: "retryAttempts m' = retryAttempts m"
    and em: "emitted m' = emitted m @
               [connectionUpdate \<lparr>cu_whatsappId = s_id s, cu_status = CONNECTED,
                                  cu_qrCode = None, cu_error = None\<rparr>]"
    and db: "database m' = open_store_writes rt (s_id s) d0"
    unfolding m'_def eq by (simp_all add: resolve_frame emit_def map_of_update_self)
  have a: "\<exists>s'. session_of m' (s_id s) = Some s' \<and> handles m' h = Some s' \<and>
                   s_status s' = CONNECTED \<and> s_qrCode s' = s_qrCode s"
    using hs reg qc by (simp add: session_of_def)
  have pr: "promises m (s_promise s) = Some Pending \<longrightarrow>
                promises m' (s_promise s) = Some (Resolved h) \<and>
                (\<forall>kind. \<exists>r mm. startConnection_resume (s_id s) kind (s_promise s) m' = Some (r, mm) \<and>
                           success r \<and> qrCode r = s_qrCode s)"
  proof
    assume "promises m (s_promise s) = Some Pending"
    then have res: "promises m' (s_promise s) = Some (Resolved h)"
      unfolding m'_def eq by (simp add: resolve_def emit_def)
    have "\<exists>r mm. startConnection_resume (s_id s) kind (s_promise s) m' = Some (r, mm) \<and>
                           success r \<and> qrCode r = s_qrCode s" for kind
      using resume_resolved [OF res hs, of "s_id s" kind] qc by simp
    with res show "promises m' (s_promise s) = Some (Resolved h) \<and>
                (\<forall>kind. \<exists>r mm. startConnection_resume (s_id s) kind (s_promise s) m' = Some (r, mm) \<and>
                           success r \<and> qrCode r = s_qrCode s)"
      by simp
  qed
  have st: "reachable (database m) \<and> parseInt rt (s_id s) \<noteq> None \<longrightarrow>
                (\<forall>r. stored_row rt (s_id s) (database m') = Some r \<longrightarrow>
                   row_status r = Some ''CONNECTED'' \<and> row_qrcode r = None)"
  proof (intro impI, elim conjE)
    assume "reachable (database m)" and "parseInt rt (s_id s) \<noteq> None"
    then obtain k where "reachable d0" and "parseInt rt (s_id s) = Some k"
      using re by auto
    then show "\<forall>r. stored_row rt (s_id s) (database m') = Some r \<longrightarrow>
                   row_status r = Some ''CONNECTED'' \<and> row_qrcode r = None"
      unfolding db by (rule open_store_writes_row)
  qed
  have rs: "\<forall>result. success result \<longrightarrow>
                retryAttempts (restart_resume (s_id s) result m') (s_id s) = None"
    by (simp add: restart_resume_def)
  from a reg ra em pr st rs show ?thesis
    unfolding Let_def m'_def [symmetric] by (intro conjI)
qed

text \<open>
  Claim C5, as amended. Take an \<^verbatim>\<open>open\<close> event without a QR on a socket whose listeners
  are attached. Afterwards the session is registered under its id with status CONNECTED
  and its \<^verbatim>\<open>qrCode\<close> is what it was before; the retry counts are what they were before;
  exactly one event is emitted, the connected one; a pending promise of the attempt is
  resolved with the socket, so the waiting \<^verbatim>\<open>startConnection\<close> returns success together
  with that \<^verbatim>\<open>qrCode\<close>; and if the store answers, the stored status is CONNECTED and the
  stored QR is NULL. The retry count of the id is removed later, by the restart timer's
  callback, once the restarted \<^verbatim>\<open>startConnection\<close> has returned success.
\<close>

theorem open_effects:
  assumes "handles m h = Some s" and "s_listening s" and "connection upd = Some ConnOpen"
    and "qr upd = None"
  shows "(let m' = on_connection_update rt h upd m
          in (\<exists>s'. session_of m' (s_id s) = Some s' \<and> handles m' h = Some s' \<and>
                   s_status s' = CONNECTED \<and> s_qrCode s' = s_qrCode s) \<and>
             map_of (sessions m') (s_id s) = Some h \<and>
             retryAttempts m' = retryAttempts m \<and>
             emitted m' = emitted m @
               [connectionUpdate \<lparr>cu_whatsappId = s_id s, cu_status = CONNECTED,
                                  cu_qrCode = None, cu_error = None\<rparr>] \<and>
             (promises m (s_promise s) = Some Pending \<longrightarrow>
                promises m' (s_promise s) = Some (Resolved h) \<and>
                (\<forall>kind. \<exists>r mm. startConnection_resume (s_id s) kind (s_promise s) m' = Some (r, mm) \<and>
                           success r \<and> qrCode r = s_qrCode s)) \<and>
             (reachable (database m) \<and> parseInt rt (s_id s) \<noteq> None \<longrightarrow>
                (\<forall>r. stored_row rt (s_id s) (database m') = Some r \<longrightarrow>
                   row_status r = Some ''CONNECTED'' \<and> row_qrcode r = None)) \<and>
             (\<forall>result. success result \<longrightarrow>
                retryAttempts (restart_resume (s_id s) result m') (s_id s) = None))"
  using assms by (rule open_listener)

text \<open>An instance: a fresh pairing whose QR was issued, then the connection opens.\<close>

theorem open_effects_witness:
  "(let m = on_connection_update example_runtime 0 (qr_issued ''qr-1'')
              (snd (startConnection_begin example_runtime example_connectionData (SocketReturns None)
                      (new_manager example_store)));
        m' = on_connection_update example_runtime 0 opened m
    in map_of (sessions m') ''42'' = Some 0 \<and>
       emitted m' = emitted m @
         [connectionUpdate \<lparr>cu_whatsappId = ''42'', cu_status = CONNECTED, cu_qrCode = None,
                            cu_error = None\<rparr>] \<and>
       promises m' 0 = Some (Resolved 0) \<and>
       map_option row_status (stored_row example_runtime ''42'' (database m')) =
         Some (Some ''CONNECTED'') \<and>
       map_option row_qrcode (stored_row example_runtime ''42'' (database m')) = Some None \<and>
       retryAttempts (restart_resume ''42''
          \<lparr>success = True, message = ''Session 42 initialized'', qrCode = None\<rparr> m') ''42'' = None)"
proof -
  define m where "m = on_connection_update example_runtime 0 (qr_issued ''qr-1'')
              (snd (startConnection_begin example_runtime example_connectionData (SocketReturns None)
                      (new_manager example_store)))"
  define s where "s = the (handles m 0)"
  define m' where "m' = on_connection_update example_runtime 0 opened m"
  have h: "handles m 0 = Some s" and l: "s_listening s"
    and f: "s_id s = ''42''" "s_promise s = 0"
    and st: "reachable (database m)" "parseInt example_runtime ''42'' \<noteq> None"
      "promises m 0 = Some Pending"
    unfolding s_def m_def by (simp_all add: manager_eval cong: let_weak_cong)
  have c: "connection opened = Some ConnOpen" and q: "qr opened = None"
    by (simp_all add: opened_def)
  have row: "stored_row example_runtime ''42'' (database m') \<noteq> None"
    unfolding m'_def m_def by (simp add: manager_eval cong: let_weak_cong)
  note R = open_effects [OF h l c q, of example_runtime, unfolded Let_def m'_def [symmetric] f,
      THEN conjunct2]
  have a: "map_of (sessions m') ''42'' = Some 0"
    using R [THEN conjunct1] .
  have b: "emitted m' = emitted m @
         [connectionUpdate \<lparr>cu_whatsappId = ''42'', cu_status = CONNECTED, cu_qrCode = None,
                            cu_error = None\<rparr>]"
    using R [THEN conjunct2, THEN conjunct2, THEN conjunct1] .
  have p: "promises m' 0 = Some (Resolved 0)"
    using R [THEN conjunct2, THEN conjunct2, THEN conjunct2, THEN conjunct1] st by simp
  have "\<forall>r. stored_row example_runtime ''42'' (database m') = Some r \<longrightarrow>
                   row_status r = Some ''CONNECTED'' \<and> row_qrcode r = None"
    using R [THEN conjunct2, THEN conjunct2, THEN conjunct2, THEN conjunct2, THEN conjunct1] st
    by simp
  then have d: "map_option row_status (stored_row example_runtime ''42'' (database m')) =
         Some (Some ''CONNECTED'') \<and>
       map_option row_qrcode (stored_row example_runtime ''42'' (database m')) = Some None"
    using row by (cases "stored_row example_runtime ''42'' (database m')") simp_all
  have e: "retryAttempts (restart_resume ''42''
          \<lparr>success = True, message = ''Session 42 initialized'', qrCode = None\<rparr> m') ''42'' = None"
    using R [THEN conjunct2, THEN conjunct2, THEN conjunct2, THEN conjunct2, THEN conjunct2,
        rule_format, of "\<lparr>success = True, message = ''Session 42 initialized'', qrCode = None\<rparr>"]
    by simp
  from a b p d e show ?thesis
    unfolding Let_def m'_def [symmetric] m_def [symmetric] by simp
qed

text \<open>
  Claim C5 as stated fails in two places. After a QR and an \<^verbatim>\<open>open\<close>, the session is
  CONNECTED and still carries the QR in memory. And when a connection is started by hand
  while a restart is pending and then opens, the retry count is still 1.
\<close>

theorem open_keeps_qrCode_and_retry_count:
  "(let m1 = snd (startConnection_begin example_runtime example_connectionData (SocketReturns None)
                   (new_manager example_store));
        m2 = on_connection_update example_runtime 0 (qr_issued ''qr-1'') m1;
        m3 = on_connection_update example_runtime 0 opened m2
    in map_option s_status (session_of m3 ''42'') = Some CONNECTED \<and>
       map_option s_qrCode (session_of m3 ''42'') = Some (Some ''qr-1'')) \<and>
   (let m1 = snd (startConnection_begin example_runtime example_connectionData (SocketReturns None)
                   (new_manager example_store));
        m2 = on_connection_update example_runtime 0 (closed 428 ''Connection Closed'') m1;
        m3 = snd (the (startConnection_resume ''42'' Started 0 m2));
        m4 = snd (startConnection_begin example_runtime restored_connectionData
                   (SocketReturns (Some ''me'')) m3);
        m5 = on_connection_update example_runtime 1 opened m4
    in retryAttempts m2 ''42'' = Some 1 \<and>
       map_option s_status (session_of m5 ''42'') = Some CONNECTED \<and>
       retryAttempts m5 ''42'' = Some 1)"
  by (simp add: manager_eval cong: let_weak_cong)

subsection \<open>A QR is issued\<close>






section \<open>Sending\<close>

text \<open>
  Claim C8. Called with a \<^verbatim>\<open>sendData\<close> object, \<^verbatim>\<open>sendMessage\<close> returns and does not throw:
  on an id that is not registered, the failure naming the session as not found; on a
  registered session without a user, the failure naming it as not connected; when the
  media pipeline answers without success, a failure with exactly the pipeline's error,
  and the manager is unchanged, so the transport was not asked to send. A throw of the
  pipeline or of the transport becomes a failure with the thrown message. Every result is
  either such a failure or what the transport returned. Called with \<^verbatim>\<open>undefined\<close>, as
  the gateway does for a frame without \<^verbatim>\<open>data\<close>, \<^verbatim>\<open>sendMessage\<close> throws the TypeError
  of its destructuring and returns nothing.
\<close>

theorem sendMessage_structured:
  "(map_of (sessions m) (sd_whatsappId sd) = None \<longrightarrow>
      sendMessage (Some sd) onlyAudio media send m =
        Inr (Failure (Some (''WhatsApp session '' @ sd_whatsappId sd @ '' not found'')), m)) \<and>
   (\<forall>s. session_of m (sd_whatsappId sd) = Some s \<and> s_user s = None \<longrightarrow>
      sendMessage (Some sd) onlyAudio media send m =
        Inr (Failure (Some (''WhatsApp session '' @ sd_whatsappId sd @ '' not connected'')), m)) \<and>
   (\<forall>s processed err.
      session_of m (sd_whatsappId sd) = Some s \<and> s_user s \<noteq> None \<and>
      media (sd_message sd) onlyAudio = MediaResult False processed err \<longrightarrow>
      sendMessage (Some sd) onlyAudio media send m = Inr (Failure err, m)) \<and>
   (\<forall>s e.
      session_of m (sd_whatsappId sd) = Some s \<and> s_user s \<noteq> None \<and>
      media (sd_message sd) onlyAudio = MediaThrows e \<longrightarrow>
      sendMessage (Some sd) onlyAudio media send m = Inr (Failure (Some (message_of e)), m)) \<and>
   (\<forall>s processed err e.
      session_of m (sd_whatsappId sd) = Some s \<and> s_user s \<noteq> None \<and>
      media (sd_message sd) onlyAudio = MediaResult True processed err \<and>
      send (sd_to sd) processed (sd_options sd) = SendThrows e \<longrightarrow>
      (\<exists>m'. sendMessage (Some sd) onlyAudio media send m =
               Inr (Failure (Some (message_of e)), m'))) \<and>
   (\<forall>s processed err sent.
      session_of m (sd_whatsappId sd) = Some s \<and> s_user s \<noteq> None \<and>
      media (sd_message sd) onlyAudio = MediaResult True processed err \<and>
      send (sd_to sd) processed (sd_options sd) = SendReturns sent \<longrightarrow>
      (\<exists>m'. sendMessage (Some sd) onlyAudio media send m = Inr (Sent sent, m'))) \<and>
   (\<exists>result m'. sendMessage (Some sd) onlyAudio media send m = Inr (result, m') \<and>
      ((\<exists>err. result = Failure err) \<or>
       (\<exists>processed sent. result = Sent sent \<and>
           send (sd_to sd) processed (sd_options sd) = SendReturns sent))) \<and>
   sendMessage None onlyAudio media send m = Inl destructuring_TypeError"
  by (auto simp: sendMessage_def sendMessage_try_def session_of_def Let_def
      split: option.splits media_outcome.splits send_outcome.splits)

text \<open>
  An instance of the first three cases and of a send that goes through: no session, a
  session waiting for its QR to be scanned, and an open session.
\<close>

theorem sendMessage_structured_witness:
  "sendMessage (Some example_sendData) False rejecting_media accepting_transport
       (new_manager example_store) =
     Inr (Failure (Some ''WhatsApp session 42 not found''), new_manager example_store) \<and>
   (let m = on_connection_update example_runtime 0 (qr_issued ''qr-1'')
              (snd (startConnection_begin example_runtime example_connectionData (SocketReturns None)
                      (new_manager example_store)))
    in sendMessage (Some example_sendData) False rejecting_media accepting_transport m =
         Inr (Failure (Some ''WhatsApp session 42 not connected''), m)) \<and>
   (let m = on_connection_update example_runtime 0 opened
              (snd (startConnection_begin example_runtime restored_connectionData
                      (SocketReturns (Some ''me'')) (new_manager example_store)))
    in sendMessage (Some example_sendData) False rejecting_media accepting_transport m =
         Inr (Failure (Some ''Invalid audio data format''), m) \<and>
       (\<exists>m'. sendMessage (Some example_sendData) False passing_media accepting_transport m =
                Inr (Sent ''sent:audio'', m')))"
proof -
  define q where "q = on_connection_update example_runtime 0 (qr_issued ''qr-1'')
              (snd (startConnection_begin example_runtime example_connectionData (SocketReturns None)
                      (new_manager example_store)))"
  define m where "m = on_connection_update example_runtime 0 opened
              (snd (startConnection_begin example_runtime restored_connectionData
                      (SocketReturns (Some ''me'')) (new_manager example_store)))"
  define sq where "sq = the (session_of q ''42'')"
  define sm where "sm = the (session_of m ''42'')"
  have id: "sd_whatsappId example_sendData = ''42''"
    by (simp add: example_sendData_def)
  have none: "map_of (sessions (new_manager example_store)) (sd_whatsappId example_sendData) = None"
    by (simp add: new_manager_def)
  have pend: "session_of q (sd_whatsappId example_sendData) = Some sq \<and> s_user sq = None"
    unfolding sq_def q_def id by (simp add: manager_eval cong: let_weak_cong)
  have conn: "session_of m (sd_whatsappId example_sendData) = Some sm" "s_user sm \<noteq> None"
    unfolding sm_def m_def id by (simp_all add: manager_eval cong: let_weak_cong)
  have rej: "rejecting_media (sd_message example_sendData) False =
      MediaResult False [] (Some ''Invalid audio data format'')"
    by (simp add: rejecting_media_def)
  have pass: "passing_media (sd_message example_sendData) False = MediaResult True ''audio'' None"
    and acc: "accepting_transport (sd_to example_sendData) ''audio'' (sd_options example_sendData) =
      SendReturns ''sent:audio''"
    by (simp_all add: passing_media_def accepting_transport_def example_sendData_def)
  have a: "sendMessage (Some example_sendData) False rejecting_media accepting_transport
       (new_manager example_store) =
     Inr (Failure (Some ''WhatsApp session 42 not found''), new_manager example_store)"
    using sendMessage_structured [of "new_manager example_store" example_sendData False
        rejecting_media accepting_transport, THEN conjunct1, THEN mp, OF none]
    by (simp add: id)
  have b: "sendMessage (Some example_sendData) False rejecting_media accepting_transport q =
         Inr (Failure (Some ''WhatsApp session 42 not connected''), q)"
    using sendMessage_structured [of q example_sendData False rejecting_media accepting_transport,
        THEN conjunct2, THEN conjunct1, rule_format, OF pend]
    by (simp add: id)
  have c: "sendMessage (Some example_sendData) False rejecting_media accepting_transport m =
         Inr (Failure (Some ''Invalid audio data format''), m)"
    using sendMessage_structured [of m example_sendData False rejecting_media accepting_transport,
        THEN conjunct2, THEN conjunct2, THEN conjunct1, rule_format,
        of sm "[]" "Some ''Invalid audio data format''"] conn rej
    by simp
  have d: "\<exists>m'. sendMessage (Some example_sendData) False passing_media accepting_transport m =
                Inr (Sent ''sent:audio'', m')"
    using sendMessage_structured [of m example_sendData False passing_media accepting_transport,
        THEN conjunct2, THEN conjunct2, THEN conjunct2, THEN conjunct2, THEN conjunct2,
        THEN conjunct1, rule_format, of sm "''audio''" None "''sent:audio''"] conn pass acc
    by simp
  from a b c d show ?thesis
    unfolding Let_def q_def [symmetric] m_def [symmetric] by simp
qed

text \<open>
  Claim C8 at a frame without \<^verbatim>\<open>data\<close>: the session is open, and the call does not
  return a structured failure, or anything else; it throws.
\<close>

theorem sendMessage_throws_on_undefined:
  "(let m = on_connection_update example_runtime 0 opened
              (snd (startConnection_begin example_runtime restored_connectionData
                      (SocketReturns (Some ''me'')) (new_manager example_store)))
    in sendMessage None False passing_media accepting_transport m = Inl destructuring_TypeError \<and>
       (\<nexists>result. sendMessage None False passing_media accepting_transport m = Inr result))"
  by (simp add: sendMessage_def)

section \<open>Starting a connection\<close>

lemma session_of_deleted:
  "session_of (m\<lparr>deletedSessions := x\<rparr>) sid = session_of m sid"
  by (simp add: session_of_def split: option.splits)

lemma already_connected_deleted:
  "already_connected (m\<lparr>deletedSessions := x\<rparr>) sid = already_connected m sid"
  by (simp add: already_connected_def session_of_deleted)

lemma startConnection_begin_connected:
  "already_connected m (cd_id cd) \<Longrightarrow>
   startConnection_begin rt cd transport m =
     (Returned \<lparr>success = True, message = ''Session '' @ cd_id cd @ '' already connected'',
                qrCode = None\<rparr>,
      m\<lparr>deletedSessions := deletedSessions m - {cd_id cd}\<rparr>)"
  by (cases "cd_id cd \<in> deletedSessions m")
    (simp_all add: startConnection_begin_def Let_def already_connected_deleted)

lemma startConnection_begin_joins:
  "\<not> already_connected m (cd_id cd) \<Longrightarrow> connectionPromises m (cd_id cd) = Some p \<Longrightarrow>
   startConnection_begin rt cd transport m =
     (Awaiting Joined p, m\<lparr>deletedSessions := deletedSessions m - {cd_id cd}\<rparr>)"
  by (cases "cd_id cd \<in> deletedSessions m")
    (simp_all add: startConnection_begin_def Let_def already_connected_deleted)

lemma startConnection_begin_starts:
  "\<not> already_connected m (cd_id cd) \<Longrightarrow> connectionPromises m (cd_id cd) = None \<Longrightarrow>
   startConnection_begin rt cd transport m =
     (Awaiting Started (promisesMade m),
      (snd (createConnection rt cd transport (m\<lparr>deletedSessions := deletedSessions m - {cd_id cd}\<rparr>)))
        \<lparr>connectionPromises := (connectionPromises m)(cd_id cd \<mapsto> promisesMade m)\<rparr>)"
  by (cases "cd_id cd \<in> deletedSessions m"; cases transport)
    (simp_all add: startConnection_begin_def Let_def already_connected_deleted
      createConnection_def)

lemma startConnection_begin_token:
  assumes "connectionPromises m (cd_id cd) = Some p"
  shows "transportOpens (snd (startConnection_begin rt cd transport m)) = transportOpens m \<and>
         connectionPromises (snd (startConnection_begin rt cd transport m)) = connectionPromises m"
proof (cases "already_connected m (cd_id cd)")
  case True
  show ?thesis unfolding startConnection_begin_connected [OF True] by simp
next
  case False
  show ?thesis unfolding startConnection_begin_joins [OF False assms] by simp
qed

lemma later_calls_open_nothing:
  "connectionPromises acc sid = Some p \<Longrightarrow> \<forall>c\<in>set calls. cd_id (fst c) = sid \<Longrightarrow>
   transportOpens (fold (\<lambda>(cd, transport) acc. snd (startConnection_begin rt cd transport acc))
                     calls acc) = transportOpens acc"
proof (induction calls arbitrary: acc)
  case Nil
  then show ?case by simp
next
  case (Cons c calls)
  obtain cd transport where c: "c = (cd, transport)" by (cases c)
  then have id: "cd_id cd = sid" using Cons.prems(2) by simp
  then have tok: "connectionPromises acc (cd_id cd) = Some p" using Cons.prems(1) by simp
  note step = startConnection_begin_token [OF tok, of rt transport]
  have "connectionPromises (snd (startConnection_begin rt cd transport acc)) sid = Some p"
    using step Cons.prems(1) by simp
  from Cons.IH [OF this] Cons.prems(2)
  show ?case using step c by simp
qed

text \<open>
  Claim C1, as amended. Let a call of \<^verbatim>\<open>startConnection\<close> find an entry \<open>p\<close> in
  \<open>connectionPromises\<close> for its id. The call makes no socket and no promise and leaves
  the entry in place. If no session with a user is registered under the id, the call
  waits for \<open>p\<close>; if one is, the call returns success at once, without waiting. A call
  that finds no entry and no such session makes exactly one call of \<^verbatim>\<open>makeWASocket\<close>
  (unless fetching the version throws) and stores its promise under the id; however many
  calls for the same id follow before anything else happens, that call stays the only
  one. Whoever
  waits for \<open>p\<close>, as the caller that started the attempt or as one that joined it, has no
  result while \<open>p\<close> is pending, gets success with the socket's \<^verbatim>\<open>qrCode\<close> when \<open>p\<close> is
  resolved, and the failure with the message of the error when \<open>p\<close> is rejected.
\<close>

theorem startConnection_joins:
  "(connectionPromises m (cd_id cd) = Some p \<longrightarrow>
      transportOpens (snd (startConnection_begin rt cd transport m)) = transportOpens m \<and>
      handles (snd (startConnection_begin rt cd transport m)) = handles m \<and>
      promises (snd (startConnection_begin rt cd transport m)) = promises m \<and>
      connectionPromises (snd (startConnection_begin rt cd transport m)) = connectionPromises m \<and>
      ((\<forall>s. session_of m (cd_id cd) = Some s \<longrightarrow> s_user s = None) \<longrightarrow>
         fst (startConnection_begin rt cd transport m) = Awaiting Joined p) \<and>
      (\<forall>s. session_of m (cd_id cd) = Some s \<and> s_user s \<noteq> None \<longrightarrow>
         fst (startConnection_begin rt cd transport m) =
           Returned \<lparr>success = True, message = ''Session '' @ cd_id cd @ '' already connected'',
                      qrCode = None\<rparr>)) \<and>
   (connectionPromises m (cd_id cd) = None \<and>
    (\<forall>s. session_of m (cd_id cd) = Some s \<longrightarrow> s_user s = None) \<and>
    (\<forall>e. transport \<noteq> VersionThrows e) \<longrightarrow>
      fst (startConnection_begin rt cd transport m) = Awaiting Started (promisesMade m) \<and>
      transportOpens (snd (startConnection_begin rt cd transport m)) = transportOpens m @ [cd_id cd] \<and>
      connectionPromises (snd (startConnection_begin rt cd transport m)) (cd_id cd) =
        Some (promisesMade m) \<and>
      (\<forall>calls. (\<forall>c\<in>set calls. cd_id (fst c) = cd_id cd) \<longrightarrow>
         transportOpens
           (fold (\<lambda>(cd', transport') acc. snd (startConnection_begin rt cd' transport' acc)) calls
              (snd (startConnection_begin rt cd transport m))) = transportOpens m @ [cd_id cd])) \<and>
   (\<forall>m' h s. promises m' p = Some (Resolved h) \<and> handles m' h = Some s \<longrightarrow>
      map_option fst (startConnection_resume (cd_id cd) Joined p m') =
        Some \<lparr>success = True, message = ''Connection for '' @ cd_id cd @ '' established'',
              qrCode = s_qrCode s\<rparr> \<and>
      map_option fst (startConnection_resume (cd_id cd) Started p m') =
        Some \<lparr>success = True, message = ''Session '' @ cd_id cd @ '' initialized'',
              qrCode = s_qrCode s\<rparr>) \<and>
   (\<forall>m' e kind. promises m' p = Some (Rejected e) \<longrightarrow>
      map_option fst (startConnection_resume (cd_id cd) kind p m') =
        Some \<lparr>success = False, message = ''Error starting connection: '' @ message_of e,
              qrCode = None\<rparr>) \<and>
   (\<forall>m' kind. promises m' p = Some Pending \<longrightarrow>
      startConnection_resume (cd_id cd) kind p m' = None)"
proof (intro conjI)
  show "connectionPromises m (cd_id cd) = Some p \<longrightarrow>
      transportOpens (snd (startConnection_begin rt cd transport m)) = transportOpens m \<and>
      handles (snd (startConnection_begin rt cd transport m)) = handles m \<and>
      promises (snd (startConnection_begin rt cd transport m)) = promises m \<and>
      connectionPromises (snd (startConnection_begin rt cd transport m)) = connectionPromises m \<and>
      ((\<forall>s. session_of m (cd_id cd) = Some s \<longrightarrow> s_user s = None) \<longrightarrow>
         fst (startConnection_begin rt cd transport m) = Awaiting Joined p) \<and>
      (\<forall>s. session_of m (cd_id cd) = Some s \<and> s_user s \<noteq> None \<longrightarrow>
         fst (startConnection_begin rt cd transport m) =
           Returned \<lparr>success = True, message = ''Session '' @ cd_id cd @ '' already connected'',
                      qrCode = None\<rparr>)"
  proof
    assume tok: "connectionPromises m (cd_id cd) = Some p"
    show "transportOpens (snd (startConnection_begin rt cd transport m)) = transportOpens m \<and>
      handles (snd (startConnection_begin rt cd transport m)) = handles m \<and>
      promises (snd (startConnection_begin rt cd transport m)) = promises m \<and>
      connectionPromises (snd (startConnection_begin rt cd transport m)) = connectionPromises m \<and>
      ((\<forall>s. session_of m (cd_id cd) = Some s \<longrightarrow> s_user s = None) \<longrightarrow>
         fst (startConnection_begin rt cd transport m) = Awaiting Joined p) \<and>
      (\<forall>s. session_of m (cd_id cd) = Some s \<and> s_user s \<noteq> None \<longrightarrow>
         fst (startConnection_begin rt cd transport m) =
           Returned \<lparr>success = True, message = ''Session '' @ cd_id cd @ '' already connected'',
                      qrCode = None\<rparr>)"
    proof (cases "already_connected m (cd_id cd)")
      case True
      then have no: "\<not> (\<forall>s. session_of m (cd_id cd) = Some s \<longrightarrow> s_user s = None)"
        by (auto simp: already_connected_def split: option.splits)
      show ?thesis
        unfolding startConnection_begin_connected [OF True] using no by simp
    next
      case False
      then have no: "\<forall>s. session_of m (cd_id cd) = Some s \<longrightarrow> s_user s = None"
        by (auto simp: already_connected_def split: option.splits)
      show ?thesis
        unfolding startConnection_begin_joins [OF False tok] using no by simp
    qed
  qed
next
  show "connectionPromises m (cd_id cd) = None \<and>
    (\<forall>s. session_of m (cd_id cd) = Some s \<longrightarrow> s_user s = None) \<and>
    (\<forall>e. transport \<noteq> VersionThrows e) \<longrightarrow>
      fst (startConnection_begin rt cd transport m) = Awaiting Started (promisesMade m) \<and>
      transportOpens (snd (startConnection_begin rt cd transport m)) = transportOpens m @ [cd_id cd] \<and>
      connectionPromises (snd (startConnection_begin rt cd transport m)) (cd_id cd) =
        Some (promisesMade m) \<and>
      (\<forall>calls. (\<forall>c\<in>set calls. cd_id (fst c) = cd_id cd) \<longrightarrow>
         transportOpens
           (fold (\<lambda>(cd', transport') acc. snd (startConnection_begin rt cd' transport' acc)) calls
              (snd (startConnection_begin rt cd transport m))) = transportOpens m @ [cd_id cd])"
  proof (intro impI, elim conjE)
    assume none: "connectionPromises m (cd_id cd) = None"
      and nu: "\<forall>s. session_of m (cd_id cd) = Some s \<longrightarrow> s_user s = None"
      and tr: "\<forall>e. transport \<noteq> VersionThrows e"
    have nc: "\<not> already_connected m (cd_id cd)"
      using nu by (auto simp: already_connected_def split: option.splits)
    have opens: "transportOpens (snd (createConnection rt cd transport
            (m\<lparr>deletedSessions := deletedSessions m - {cd_id cd}\<rparr>))) = transportOpens m @ [cd_id cd]"
      using tr by (cases transport) (simp_all add: createConnection_def Let_def)
    have first: "fst (startConnection_begin rt cd transport m) = Awaiting Started (promisesMade m) \<and>
      transportOpens (snd (startConnection_begin rt cd transport m)) = transportOpens m @ [cd_id cd] \<and>
      connectionPromises (snd (startConnection_begin rt cd transport m)) (cd_id cd) =
        Some (promisesMade m)"
      unfolding startConnection_begin_starts [OF nc none] using opens by simp
    have rest: "\<forall>calls. (\<forall>c\<in>set calls. cd_id (fst c) = cd_id cd) \<longrightarrow>
         transportOpens
           (fold (\<lambda>(cd', transport') acc. snd (startConnection_begin rt cd' transport' acc)) calls
              (snd (startConnection_begin rt cd transport m))) = transportOpens m @ [cd_id cd]"
    proof (intro allI impI)
      fix calls :: "(StartConnectionData \<times> transport_start) list"
      assume same: "\<forall>c\<in>set calls. cd_id (fst c) = cd_id cd"
      have tok: "connectionPromises (snd (startConnection_begin rt cd transport m)) (cd_id cd) =
          Some (promisesMade m)"
        using first by simp
      show "transportOpens
           (fold (\<lambda>(cd', transport') acc. snd (startConnection_begin rt cd' transport' acc)) calls
              (snd (startConnection_begin rt cd transport m))) = transportOpens m @ [cd_id cd]"
        using later_calls_open_nothing [OF tok same, of rt] first by simp
    qed
    from first rest show "fst (startConnection_begin rt cd transport m) = Awaiting Started (promisesMade m) \<and>
      transportOpens (snd (startConnection_begin rt cd transport m)) = transportOpens m @ [cd_id cd] \<and>
      connectionPromises (snd (startConnection_begin rt cd transport m)) (cd_id cd) =
        Some (promisesMade m) \<and>
      (\<forall>calls. (\<forall>c\<in>set calls. cd_id (fst c) = cd_id cd) \<longrightarrow>
         transportOpens
           (fold (\<lambda>(cd', transport') acc. snd (startConnection_begin rt cd' transport' acc)) calls
              (snd (startConnection_begin rt cd transport m))) = transportOpens m @ [cd_id cd])"
      by simp
  qed
next
  show "\<forall>m' h s. promises m' p = Some (Resolved h) \<and> handles m' h = Some s \<longrightarrow>
      map_option fst (startConnection_resume (cd_id cd) Joined p m') =
        Some \<lparr>success = True, message = ''Connection for '' @ cd_id cd @ '' established'',
              qrCode = s_qrCode s\<rparr> \<and>
      map_option fst (startConnection_resume (cd_id cd) Started p m') =
        Some \<lparr>success = True, message = ''Session '' @ cd_id cd @ '' initialized'',
              qrCode = s_qrCode s\<rparr>"
    by (simp add: startConnection_resume_def Let_def)
next
  show "\<forall>m' e kind. promises m' p = Some (Rejected e) \<longrightarrow>
      map_option fst (startConnection_resume (cd_id cd) kind p m') =
        Some \<lparr>success = False, message = ''Error starting connection: '' @ message_of e,
              qrCode = None\<rparr>"
    by (simp add: startConnection_resume_def Let_def)
next
  show "\<forall>m' kind. promises m' p = Some Pending \<longrightarrow>
      startConnection_resume (cd_id cd) kind p m' = None"
    by (simp add: startConnection_resume_def Let_def)
qed

text \<open>
  An instance: a first call starts the attempt, a second one joins it and opens nothing;
  and both kinds of caller get success once a socket has opened.
\<close>

theorem startConnection_joins_witness:
  "(let started = startConnection_begin example_runtime example_connectionData (SocketReturns None)
                    (new_manager example_store);
        joined = startConnection_begin example_runtime example_connectionData (SocketReturns None)
                   (snd started)
    in fst started = Awaiting Started 0 \<and> transportOpens (snd started) = [''42''] \<and>
       connectionPromises (snd started) ''42'' = Some 0 \<and>
       fst joined = Awaiting Joined 0 \<and> transportOpens (snd joined) = [''42''] \<and>
       handles (snd joined) = handles (snd started) \<and>
       startConnection_resume ''42'' Joined 0 (snd joined) = None) \<and>
   (let m = on_connection_update example_runtime 0 opened
              (snd (startConnection_begin example_runtime restored_connectionData
                      (SocketReturns (Some ''me'')) (new_manager example_store)))
    in map_option fst (startConnection_resume ''42'' Joined 0 m) =
         Some \<lparr>success = True, message = ''Connection for 42 established'', qrCode = None\<rparr> \<and>
       map_option fst (startConnection_resume ''42'' Started 0 m) =
         Some \<lparr>success = True, message = ''Session 42 initialized'', qrCode = None\<rparr>)"
proof -
  define m0 where "m0 = new_manager example_store"
  define started where "started =
    startConnection_begin example_runtime example_connectionData (SocketReturns None) m0"
  define joined where "joined =
    startConnection_begin example_runtime example_connectionData (SocketReturns None) (snd started)"
  define m where "m = on_connection_update example_runtime 0 opened
              (snd (startConnection_begin example_runtime restored_connectionData
                      (SocketReturns (Some ''me'')) (new_manager example_store)))"
  define s where "s = the (handles m 0)"
  have id: "cd_id example_connectionData = ''42''"
    by (simp add: example_connectionData_def)
  have fresh: "connectionPromises m0 (cd_id example_connectionData) = None \<and>
      (\<forall>s. session_of m0 (cd_id example_connectionData) = Some s \<longrightarrow> s_user s = None) \<and>
      (\<forall>e. SocketReturns None \<noteq> VersionThrows e)"
    and zero: "promisesMade m0 = 0" "transportOpens m0 = []"
    unfolding m0_def by (simp_all add: new_manager_def session_of_def)
  note S = startConnection_joins [of m0 example_connectionData 0 example_runtime "SocketReturns None",
      THEN conjunct2, THEN conjunct1, THEN mp, OF fresh, unfolded started_def [symmetric] id zero]
  have a: "fst started = Awaiting Started 0 \<and> transportOpens (snd started) = [''42''] \<and>
       connectionPromises (snd started) ''42'' = Some 0"
    using S by simp
  then have tok: "connectionPromises (snd started) (cd_id example_connectionData) = Some 0"
    by (simp add: id)
  have nouser: "\<forall>s. session_of (snd started) (cd_id example_connectionData) = Some s \<longrightarrow>
      s_user s = None"
    and pend: "promises (snd started) 0 = Some Pending"
    unfolding started_def m0_def by (simp_all add: manager_eval cong: let_weak_cong)
  note J = startConnection_joins [of "snd started" example_connectionData 0 example_runtime
      "SocketReturns None", THEN conjunct1, THEN mp, OF tok, unfolded joined_def [symmetric] id]
  have b: "fst joined = Awaiting Joined 0 \<and> transportOpens (snd joined) = [''42''] \<and>
       handles (snd joined) = handles (snd started)"
    using J nouser a by (simp add: id)
  have "promises (snd joined) 0 = Some Pending"
    using J pend by simp
  then have c: "startConnection_resume ''42'' Joined 0 (snd joined) = None"
    using startConnection_joins [of m0 example_connectionData 0 example_runtime "SocketReturns None",
        THEN conjunct2, THEN conjunct2, THEN conjunct2, THEN conjunct2, rule_format,
        of "snd joined" Joined]
    by (simp add: id)
  have res: "promises m 0 = Some (Resolved 0) \<and> handles m 0 = Some s" and qc: "s_qrCode s = None"
    unfolding s_def m_def by (simp_all add: manager_eval cong: let_weak_cong)
  have d: "map_option fst (startConnection_resume ''42'' Joined 0 m) =
         Some \<lparr>success = True, message = ''Connection for 42 established'', qrCode = None\<rparr> \<and>
       map_option fst (startConnection_resume ''42'' Started 0 m) =
         Some \<lparr>success = True, message = ''Session 42 initialized'', qrCode = None\<rparr>"
    using startConnection_joins [of m0 example_connectionData 0 example_runtime "SocketReturns None",
        THEN conjunct2, THEN conjunct2, THEN conjunct1, rule_format, OF res]
    by (simp add: id qc)
  from a b c have left: "fst started = Awaiting Started 0 \<and> transportOpens (snd started) = [''42''] \<and>
       connectionPromises (snd started) ''42'' = Some 0 \<and>
       fst joined = Awaiting Joined 0 \<and> transportOpens (snd joined) = [''42''] \<and>
       handles (snd joined) = handles (snd started) \<and>
       startConnection_resume ''42'' Joined 0 (snd joined) = None"
    by simp
  from left d show ?thesis
    unfolding Let_def started_def [symmetric, unfolded m0_def] joined_def [symmetric]
      m_def [symmetric]
    by (simp only: started_def m0_def joined_def simp_thms)
qed

text \<open>
  Claim C1 as stated fails for a call that finds a registered session with a user while
  the attempt is still pending: it returns "already connected" at once instead of
  waiting. First run: the \<^verbatim>\<open>open\<close> branch has registered the session and is waiting for
  the store. Second run: a pairing has set the user, the second caller is told success,
  then the transport closes for its restart and the first caller is told failure.
\<close>

theorem startConnection_returns_during_attempt:
  "(let m1 = snd (startConnection_begin example_runtime restored_connectionData
                    (SocketReturns (Some ''me'')) (new_manager example_store));
        m2 = on_open_begin 0 opened (on_pairing example_runtime 0 opened m1);
        second = startConnection_begin example_runtime restored_connectionData
                   (SocketReturns (Some ''me'')) m2
    in connectionPromises m2 ''42'' = Some 0 \<and> promises m2 0 = Some Pending \<and>
       fst second =
         Returned \<lparr>success = True, message = ''Session 42 already connected'', qrCode = None\<rparr>) \<and>
   (let m1 = snd (startConnection_begin example_runtime example_connectionData (SocketReturns None)
                    (new_manager example_store));
        m2 = on_connection_update example_runtime 0 (qr_issued ''qr-1'') m1;
        m3 = transport_sets_user 0 (Some ''me'') m2;
        second = startConnection_begin example_runtime example_connectionData (SocketReturns None) m3;
        m4 = on_connection_update example_runtime 0 (closed 515 ''Stream Errored (restart required)'')
               (snd second)
    in connectionPromises m3 ''42'' = Some 0 \<and> promises m3 0 = Some Pending \<and>
       fst second =
         Returned \<lparr>success = True, message = ''Session 42 already connected'', qrCode = None\<rparr> \<and>
       map_option fst (startConnection_resume ''42'' Started 0 m4) =
         Some \<lparr>success = False, message = ''Error starting connection: Connection closed for 42'',
               qrCode = None\<rparr>)"
  by (simp add: manager_eval cong: let_weak_cong)

section \<open>Reconciliation\<close>

lemma deleteSession_fields:
  "sessions (snd (deleteSession x acc)) = AList.delete x (sessions acc)"
  "pendingReconnects (snd (deleteSession x acc)) = (pendingReconnects acc)(x := None)"
  "retryAttempts (snd (deleteSession x acc)) = (retryAttempts acc)(x := None)"
  "connectionPromises (snd (deleteSession x acc)) = (connectionPromises acc)(x := None)"
  "timers (snd (deleteSession x acc)) =
     (case pendingReconnects acc x of None \<Rightarrow> timers acc | Some t \<Rightarrow> (timers acc)(t := None))"
  "handles (snd (deleteSession x acc)) =
     (case map_of (sessions acc) x of
        None \<Rightarrow> handles acc
      | Some h \<Rightarrow> (handles acc)(h := map_option released (handles acc h)))"
  by (simp_all add: deleteSession_eq)

lemma released_flags: "s_ended (released s)" "\<not> s_listening (released s)"
  by (simp_all add: released_def)

lemma deleteSession_timers_shrink:
  "timers (snd (deleteSession x acc)) t \<noteq> None \<Longrightarrow>
   timers (snd (deleteSession x acc)) t = timers acc t"
  by (auto simp: deleteSession_fields split: option.splits if_splits)

lemma evicted_stable: "evicted m h sid acc \<Longrightarrow> evicted m h sid (snd (deleteSession x acc))"
  unfolding evicted_def
  apply (intro conjI)
        apply (simp add: deleteSession_fields AList.delete_conv')
       apply (simp add: deleteSession_fields)
      apply (simp add: deleteSession_fields)
     apply (simp add: deleteSession_fields)
    apply (auto simp: deleteSession_fields split: option.splits)[1]
   apply (metis deleteSession_timers_shrink)
  apply (auto simp: deleteSession_fields released_flags split: option.splits)
  done

lemma not_yet_evicted_other:
  "not_yet_evicted m h sid acc \<Longrightarrow> x \<noteq> sid \<Longrightarrow> not_yet_evicted m h sid (snd (deleteSession x acc))"
  unfolding not_yet_evicted_def
  apply (intro conjI)
     apply (simp add: deleteSession_fields AList.delete_conv')
    apply (simp add: deleteSession_fields)
   apply (metis deleteSession_timers_shrink)
  apply (auto simp: deleteSession_fields split: option.splits)
  done

lemma evict_now:
  "not_yet_evicted m h sid acc \<Longrightarrow> evicted m h sid (snd (deleteSession sid acc))"
  unfolding not_yet_evicted_def evicted_def
  apply (intro conjI)
        apply (simp add: deleteSession_fields AList.delete_conv')
       apply (simp add: deleteSession_fields)
      apply (simp add: deleteSession_fields)
     apply (simp add: deleteSession_fields)
    apply (auto simp: deleteSession_fields split: option.splits)[1]
   apply (metis deleteSession_timers_shrink)
  apply (auto simp: deleteSession_fields released_flags split: option.splits)
  done

lemma fold_evicted:
  "evicted m h sid acc \<Longrightarrow>
   evicted m h sid
     (fold (\<lambda>x acc. if x \<in> dbIds then acc else snd (deleteSession x acc)) ids acc)"
  by (induction ids arbitrary: acc) (simp_all add: evicted_stable)

lemma fold_evicts:
  "sid \<in> set ids \<Longrightarrow> sid \<notin> dbIds \<Longrightarrow> not_yet_evicted m h sid acc \<Longrightarrow>
   evicted m h sid
     (fold (\<lambda>x acc. if x \<in> dbIds then acc else snd (deleteSession x acc)) ids acc)"
proof (induction ids arbitrary: acc)
  case Nil
  then show ?case by simp
next
  case (Cons x xs)
  show ?case
  proof (cases "x = sid")
    case True
    then have "evicted m h sid (snd (deleteSession x acc))"
      using Cons.prems(3) by (simp add: evict_now)
    then show ?thesis
      using True Cons.prems(2) by (simp add: fold_evicted)
  next
    case False
    then have in_rest: "sid \<in> set xs" using Cons.prems(1) by simp
    have "not_yet_evicted m h sid (if x \<in> dbIds then acc else snd (deleteSession x acc))"
      using Cons.prems(3) False by (simp add: not_yet_evicted_other)
    then show ?thesis
      using Cons.IH [OF in_rest Cons.prems(2)] by simp
  qed
qed

lemma reconcile_evicted:
  assumes fetch: "getAllWhatsappConnections (database m) = Inr dbConnections"
    and reg: "map_of (sessions m) sid = Some h"
    and absent: "sid \<notin> set (map (\<lambda>(i, r). toString rt i) dbConnections)"
  shows "evicted m h sid (reconcileSessionsWithDatabase rt m)"
proof -
  have start: "not_yet_evicted m h sid m"
    using reg by (simp add: not_yet_evicted_def)
  have "sid \<in> set (map fst (sessions m))"
    using reg by (metis map_of_eq_None_iff option.distinct(1) set_map)
  from fold_evicts [OF this absent start]
  have "evicted m h sid
     (fold (\<lambda>x acc. if x \<in> set (map (\<lambda>(i, r). toString rt i) dbConnections) then acc
                     else snd (deleteSession x acc)) (map fst (sessions m)) m)" .
  then show ?thesis
    by (simp add: reconcileSessionsWithDatabase_def fetch Let_def evicted_def)
qed

lemma fold_untracked:
  "\<forall>x. pendingReconnects acc x \<noteq> Some t \<Longrightarrow>
   timers (fold (\<lambda>x acc. if x \<in> dbIds then acc else snd (deleteSession x acc)) ids acc) t =
     timers acc t"
proof (induction ids arbitrary: acc)
  case Nil
  then show ?case by simp
next
  case (Cons y ys)
  have keep: "timers (snd (deleteSession y acc)) t = timers acc t"
    using Cons.prems by (auto simp: deleteSession_fields split: option.splits)
  have still: "\<forall>x. pendingReconnects (snd (deleteSession y acc)) x \<noteq> Some t"
    using Cons.prems by (simp add: deleteSession_fields)
  show ?case
    using Cons.IH [OF still] Cons.IH [OF Cons.prems] keep by simp
qed

lemma reconcile_untracked:
  "\<forall>x. pendingReconnects m x \<noteq> Some t \<Longrightarrow>
   timers (reconcileSessionsWithDatabase rt m) t = timers m t"
  by (simp add: reconcileSessionsWithDatabase_def Let_def fold_untracked split: sum.splits)

text \<open>
  Claim C7. Let the fetch of a reconciliation pass succeed, and let a session be
  registered under an id that is not among the fetched ids. After the pass the id is
  not in the registry, has no pending-reconnect entry, no retry count and no connection
  promise; the timer that was stored for it is disarmed and cannot fire; its socket, if
  it has one, was ended and has lost its listeners. The pass reaches a timer only through
  the pending-reconnect map: a timer that is in no entry of the map is left as it was,
  armed if it was armed, whichever id it restarts.
\<close>

theorem reconcile_evicts:
  assumes fetch: "getAllWhatsappConnections (database m) = Inr dbConnections"
    and reg: "map_of (sessions m) sid = Some h"
    and absent: "sid \<notin> set (map (\<lambda>(i, r). toString rt i) dbConnections)"
  shows "(let m' = reconcileSessionsWithDatabase rt m
          in map_of (sessions m') sid = None \<and>
             pendingReconnects m' sid = None \<and>
             (\<forall>t. pendingReconnects m sid = Some t \<longrightarrow>
                  timers m' t = None \<and> (\<forall>transport. restart_fire rt t transport m' = None)) \<and>
             retryAttempts m' sid = None \<and>
             connectionPromises m' sid = None \<and>
             (\<forall>s. handles m h = Some s \<longrightarrow>
                  (\<exists>s'. handles m' h = Some s' \<and> s_ended s' \<and> \<not> s_listening s')) \<and>
             (\<forall>t. (\<forall>x. pendingReconnects m x \<noteq> Some t) \<longrightarrow> timers m' t = timers m t))"
proof -
  define m' where "m' = reconcileSessionsWithDatabase rt m"
  have ev: "evicted m h sid m'"
    unfolding m'_def using fetch reg absent by (rule reconcile_evicted)
  then have a: "map_of (sessions m') sid = None" and b: "pendingReconnects m' sid = None"
    and c: "retryAttempts m' sid = None" and d: "connectionPromises m' sid = None"
    and t: "\<forall>t. pendingReconnects m sid = Some t \<longrightarrow> timers m' t = None"
    and sub: "\<forall>t. timers m' t \<noteq> None \<longrightarrow> timers m' t = timers m t"
    and rel: "handles m h \<noteq> None \<longrightarrow>
         (\<exists>s'. handles m' h = Some s' \<and> s_ended s' \<and> \<not> s_listening s')"
    by (simp_all add: evicted_def)
  have t': "\<forall>t. pendingReconnects m sid = Some t \<longrightarrow>
                  timers m' t = None \<and> (\<forall>transport. restart_fire rt t transport m' = None)"
    using t by (simp add: restart_fire_def)
  have rel': "\<forall>s. handles m h = Some s \<longrightarrow>
                  (\<exists>s'. handles m' h = Some s' \<and> s_ended s' \<and> \<not> s_listening s')"
    using rel by simp
  have untracked: "\<forall>t. (\<forall>x. pendingReconnects m x \<noteq> Some t) \<longrightarrow> timers m' t = timers m t"
    unfolding m'_def by (simp add: reconcile_untracked)
  from a b t' c d rel' untracked show ?thesis
    unfolding Let_def m'_def [symmetric] by (intro conjI)
qed

text \<open>
  An instance: the pass runs on \<open>twice_closed\<close>, where the second timer is the stored one
  and the first is in no entry of the map.
\<close>

lemmas reconcile_eval =
  manager_eval reconcileSessionsWithDatabase_def getAllWhatsappConnections_def selected_def

theorem reconcile_evicts_witness:
  "(let m' = reconcileSessionsWithDatabase example_runtime twice_closed
    in map_of (sessions twice_closed) ''7'' = Some 2 \<and>
       pendingReconnects twice_closed ''7'' = Some 1 \<and>
       map_of (sessions m') ''7'' = None \<and> pendingReconnects m' ''7'' = None \<and>
       timers m' 1 = None \<and> restart_fire example_runtime 1 (SocketReturns None) m' = None \<and>
       retryAttempts m' ''7'' = None \<and>
       map_option s_ended (handles m' 2) = Some True \<and>
       map_option s_listening (handles m' 2) = Some False \<and>
       timers m' 0 = Some (2000, orphan_connectionData))"
proof -
  define m' where "m' = reconcileSessionsWithDatabase example_runtime twice_closed"
  have fetch: "getAllWhatsappConnections (database twice_closed) = Inr (rows example_store)"
    and reg: "map_of (sessions twice_closed) ''7'' = Some 2"
    and pend: "pendingReconnects twice_closed ''7'' = Some 1"
    and hd: "handles twice_closed 2 \<noteq> None"
    and first: "timers twice_closed 0 = Some (2000, orphan_connectionData)"
    and lost: "\<forall>x. pendingReconnects twice_closed x \<noteq> Some 0"
    unfolding twice_closed_def by (simp_all add: reconcile_eval cong: let_weak_cong)
  have absent: "''7'' \<notin> set (map (\<lambda>(i, r). toString example_runtime i) (rows example_store))"
    by (simp add: example_runtime_def example_store_def)
  note R = reconcile_evicts [OF fetch reg absent, unfolded Let_def m'_def [symmetric]]
  have a: "map_of (sessions m') ''7'' = None" using R [THEN conjunct1] .
  have b: "pendingReconnects m' ''7'' = None" using R [THEN conjunct2, THEN conjunct1] .
  have c: "timers m' 1 = None \<and> restart_fire example_runtime 1 (SocketReturns None) m' = None"
    using R [THEN conjunct2, THEN conjunct2, THEN conjunct1, rule_format, OF pend] by simp
  have d: "retryAttempts m' ''7'' = None"
    using R [THEN conjunct2, THEN conjunct2, THEN conjunct2, THEN conjunct1] .
  from hd obtain s where s: "handles twice_closed 2 = Some s" by auto
  from R [THEN conjunct2, THEN conjunct2, THEN conjunct2, THEN conjunct2, THEN conjunct2,
      THEN conjunct1, rule_format, OF s]
  have e: "map_option s_ended (handles m' 2) = Some True \<and>
       map_option s_listening (handles m' 2) = Some False"
    by auto
  have f: "timers m' 0 = Some (2000, orphan_connectionData)"
    using R [THEN conjunct2, THEN conjunct2, THEN conjunct2, THEN conjunct2, THEN conjunct2,
      THEN conjunct2, THEN spec, THEN mp, OF lost] first by simp
  from reg pend a b c d e f show ?thesis
    unfolding Let_def m'_def [symmetric] by simp
qed

text \<open>
  Claim C7's last clause at that state: the pass has evicted the id, and the first
  timer, which the second scheduling pushed out of the map without disarming it, is
  still armed for the id. When it fires, its callback starts the connection of the
  evicted id again: a new socket is opened and a new attempt is registered.
\<close>

theorem evicted_id_restarts:
  "(let m' = reconcileSessionsWithDatabase example_runtime twice_closed
    in map_of (sessions m') ''7'' = None \<and> pendingReconnects m' ''7'' = None \<and>
       timers m' 0 = Some (2000, orphan_connectionData) \<and>
       map_option fst (restart_fire example_runtime 0 (SocketReturns None) m') =
         Some (Awaiting Started 3) \<and>
       map_option (transportOpens \<circ> snd) (restart_fire example_runtime 0 (SocketReturns None) m') =
         Some (transportOpens m' @ [''7'']) \<and>
       map_option (\<lambda>r. connectionPromises (snd r) ''7'')
           (restart_fire example_runtime 0 (SocketReturns None) m') = Some (Some 3))"
  by (simp add: twice_closed_def reconcile_eval restart_fire_def cong: let_weak_cong)

end
